theory Spec2Isabelle
  imports Main "HOL-Library.Word" "HOL-Library.Sublist"
begin

section \<open>Errors, durations and the remote objects\<close>

text \<open>
  A Go \<open>error\<close> is observed by the framework only through \<open>Error()\<close>, so a non-nil
  error is its message and a possibly-nil error is an \<open>error option\<close>.
\<close>

type_synonym error = string

text \<open>
  \<open>strings.Contains(s, substr)\<close>: \<open>substr\<close> occurs in \<open>s\<close> as a contiguous run.
\<close>

fun Contains :: "string \<Rightarrow> string \<Rightarrow> bool" where
  "Contains [] substr = (substr = [])"
| "Contains (c # s) substr = (prefix substr (c # s) \<or> Contains s substr)"

text \<open>\<open>time.Duration\<close> counts nanoseconds.\<close>

type_synonym Duration = int

definition Second :: Duration where
  "Second = 1000000000"

definition Minute :: Duration where
  "Minute = 60 * Second"

definition PollInterval :: Duration where
  "PollInterval = 5 * Second"

definition PoolDeletionTimeout :: Duration where
  "PoolDeletionTimeout = 1 * Minute"

text \<open>
  The objects of \<open>k8s.io/api/apps/v1beta2\<close>. Their struct declarations are not among the
  source files of the framework; the records carry the fields the framework touches
  (\<open>Name\<close>, \<open>Namespace\<close>, \<open>Spec.Replicas\<close>, \<open>Status.CurrentReplicas\<close>,
  \<open>Status.AvailableReplicas\<close>) together with the other \<open>int32\<close> replica counters of the
  two status structs of that API version. \<open>Spec.Replicas\<close> is a \<open>*int32\<close>: \<open>None\<close> is the
  nil pointer, \<open>Some n\<close> a pointer to \<open>n\<close>.
\<close>

record ObjectMeta =
  Name :: string
  Namespace :: string

record StatefulSetSpec =
  Replicas :: "32 word option"

record StatefulSetStatus =
  Replicas :: "32 word"
  ReadyReplicas :: "32 word"
  CurrentReplicas :: "32 word"
  UpdatedReplicas :: "32 word"

record StatefulSet =
  ObjectMeta :: ObjectMeta
  Spec :: StatefulSetSpec
  Status :: StatefulSetStatus

record DeploymentSpec =
  Replicas :: "32 word option"

record DeploymentStatus =
  Replicas :: "32 word"
  UpdatedReplicas :: "32 word"
  ReadyReplicas :: "32 word"
  AvailableReplicas :: "32 word"
  UnavailableReplicas :: "32 word"

record Deployment =
  ObjectMeta :: ObjectMeta
  Spec :: DeploymentSpec
  Status :: DeploymentStatus

text \<open>
  The remote API is an external collaborator. A call is a transformer of the remote
  world \<open>'w\<close> that also yields the call's results, so a callback may answer differently
  on every call. \<open>Update\<close> and \<open>Get\<close> return a (non-nil) object and a possibly-nil
  error, as the generated clients do.
\<close>

record 'w KubeClient =
  StatefulSets_Update :: "string \<Rightarrow> StatefulSet \<Rightarrow> 'w \<Rightarrow> (StatefulSet \<times> error option) \<times> 'w"
  StatefulSets_Get :: "string \<Rightarrow> string \<Rightarrow> 'w \<Rightarrow> (StatefulSet \<times> error option) \<times> 'w"
  Deployments_Update :: "string \<Rightarrow> Deployment \<Rightarrow> 'w \<Rightarrow> (Deployment \<times> error option) \<times> 'w"
  Deployments_Get :: "string \<Rightarrow> string \<Rightarrow> 'w \<Rightarrow> (Deployment \<times> error option) \<times> 'w"

record 'w Framework =
  KubeClient :: "'w KubeClient"

section \<open>The convergence poller\<close>

datatype PollOutcome = Converged | Pending | Failed error

datatype PollResult = Success | TimedOut | Fatal error

text \<open>
  A condition function of the framework returns \<open>(bool, error)\<close>. The poller reads it
  as one outcome: a non-nil error is \<open>Failed\<close>, otherwise \<open>true\<close> is \<open>Converged\<close> and
  \<open>false\<close> is \<open>Pending\<close>.
\<close>

fun outcome :: "bool \<times> error option \<Rightarrow> PollOutcome" where
  "outcome (done, Some e) = Failed e"
| "outcome (True, None) = Converged"
| "outcome (False, None) = Pending"

text \<open>
  Modelled from the spec: \<open>wait.Poll\<close> of \<open>k8s.io/apimachinery/pkg/util/wait\<close>, whose body
  is not among the source files. Section 4.1 of the specification: the step is invoked
  immediately, then again every \<open>interval\<close> until it returns \<open>Converged\<close> (result
  \<open>Success\<close>), returns \<open>Failed\<close> (result \<open>Fatal\<close>), or the cumulative elapsed time exceeds
  \<open>timeout\<close> (result \<open>TimedOut\<close>). A step takes no time on the injected clock; the
  sleep between two ticks advances it by \<open>interval\<close>. \<open>ticks\<close> records the elapsed time
  of every invocation of the step. The loop is written as it stands, so for a
  non-positive interval and a step that stays \<open>Pending\<close> it does not return (\<open>None\<close>).
\<close>

partial_function (option) poll_loop ::
  "Duration \<Rightarrow> Duration \<Rightarrow> ('w \<Rightarrow> (bool \<times> error option) \<times> 'w) \<Rightarrow> Duration \<Rightarrow> Duration list \<Rightarrow> 'w
     \<Rightarrow> (PollResult \<times> Duration list \<times> 'w) option" where
  "poll_loop interval timeout condition elapsed ticks w =
     (case condition w of (r, w') \<Rightarrow>
        (case outcome r of
           Converged \<Rightarrow> Some (Success, ticks @ [elapsed], w')
         | Failed e \<Rightarrow> Some (Fatal e, ticks @ [elapsed], w')
         | Pending \<Rightarrow>
             if timeout < elapsed + interval
             then Some (TimedOut, ticks @ [elapsed], w')
             else poll_loop interval timeout condition (elapsed + interval) (ticks @ [elapsed]) w'))"

declare poll_loop.simps [code]

definition Poll ::
  "Duration \<Rightarrow> Duration \<Rightarrow> ('w \<Rightarrow> (bool \<times> error option) \<times> 'w)  \<Rightarrow> 'w
     \<Rightarrow> (PollResult \<times> Duration list \<times> 'w) option" where
  "Poll interval timeout condition w = poll_loop interval timeout condition 0 [] w"

text \<open>
  The remote world before tick \<open>n\<close> (counted from zero) of a run in which every
  earlier tick was made, and the result a poll run ends with on a given last outcome.
\<close>

fun tick_state :: "('w \<Rightarrow> (bool \<times> error option) \<times> 'w) \<Rightarrow> nat \<Rightarrow> 'w \<Rightarrow> 'w" where
  "tick_state condition 0 w = w"
| "tick_state condition (Suc n) w = tick_state condition n (snd (condition w))"

definition tick_outcome :: "('w \<Rightarrow> (bool \<times> error option) \<times> 'w) \<Rightarrow> nat \<Rightarrow> 'w \<Rightarrow> PollOutcome" where
  "tick_outcome condition n w = outcome (fst (condition (tick_state condition n w)))"

fun final_result :: "PollOutcome \<Rightarrow> PollResult" where
  "final_result Converged = Success"
| "final_result (Failed e) = Fatal e"
| "final_result Pending = TimedOut"

section \<open>Lifecycle operations\<close>

subsection \<open>Scale to zero\<close>

text \<open>
  The two anonymous condition functions of \<open>ScaleSatefulSetDownToZero\<close>: the first
  submits the update, the second reads the status. The calls to \<open>log.Infof\<close> only write
  to the process log and are left out. \<open>f.KubeClient\<close> is the client built by
  \<open>BeforeEach\<close>.
\<close>

definition ScaleSatefulSetDownToZero_update ::
  "'w Framework \<Rightarrow> StatefulSet \<Rightarrow> 'w \<Rightarrow> (bool \<times> error option) \<times> 'w" where
  "ScaleSatefulSetDownToZero_update f statefulset w =
     (case StatefulSets_Update (KubeClient f)
             (Namespace (StatefulSet.ObjectMeta statefulset)) statefulset w of
        ((result, err), w') \<Rightarrow>
          (case err of
             Some e \<Rightarrow> if Contains e ''not found'' then ((True, None), w') else ((False, None), w')
           | None \<Rightarrow> ((True, None), w')))"

definition ScaleSatefulSetDownToZero_get ::
  "'w Framework \<Rightarrow> StatefulSet \<Rightarrow> 'w \<Rightarrow> (bool \<times> error option) \<times> 'w" where
  "ScaleSatefulSetDownToZero_get f statefulset w =
     (case StatefulSets_Get (KubeClient f)
             (Namespace (StatefulSet.ObjectMeta statefulset))
             (Name (StatefulSet.ObjectMeta statefulset)) w of
        ((result, err), w') \<Rightarrow>
          (case err of
             Some e \<Rightarrow> if Contains e ''not found'' then ((True, None), w') else ((False, None), w')
           | None \<Rightarrow>
               if CurrentReplicas (StatefulSet.Status result) = 0
               then ((True, None), w') else ((False, None), w')))"

text \<open>
  The operation receives a pointer to the caller's object: \<open>None\<close> is the nil pointer,
  on which the first assignment panics; otherwise the pointee is passed in and the
  pointee as the call leaves it is returned next to the result and the remote world.
\<close>

datatype GoPanic = NilPointerDereference

definition ScaleSatefulSetDownToZero ::
  "'w Framework \<Rightarrow> StatefulSet option \<Rightarrow> 'w
     \<Rightarrow> ((GoPanic + PollResult) \<times> StatefulSet option \<times> 'w) option" where
  "ScaleSatefulSetDownToZero f p w =
     (case p of
        None \<Rightarrow> Some (Inl NilPointerDereference, None, w)
      | Some s \<Rightarrow>
          (let zero = 0;
               statefulset = s\<lparr>StatefulSet.Spec :=
                                 (StatefulSet.Spec s)\<lparr>StatefulSetSpec.Replicas := Some zero\<rparr>\<rparr>
           in case Poll PollInterval PoolDeletionTimeout
                     (ScaleSatefulSetDownToZero_update f statefulset) w of
                None \<Rightarrow> None
              | Some (err, ticks, w') \<Rightarrow>
                  if err \<noteq> Success then Some (Inr err, Some statefulset, w')
                  else (case Poll PollInterval PoolDeletionTimeout
                               (ScaleSatefulSetDownToZero_get f statefulset) w' of
                          None \<Rightarrow> None
                        | Some (err', ticks', w'') \<Rightarrow> Some (Inr err', Some statefulset, w''))))"

definition ScaleDeploymentDownToZero_update ::
  "'w Framework \<Rightarrow> Deployment \<Rightarrow> 'w \<Rightarrow> (bool \<times> error option) \<times> 'w" where
  "ScaleDeploymentDownToZero_update f deployment w =
     (case Deployments_Update (KubeClient f)
             (Namespace (Deployment.ObjectMeta deployment)) deployment w of
        ((result, err), w') \<Rightarrow>
          (case err of
             Some e \<Rightarrow> if Contains e ''not found'' then ((True, None), w') else ((False, None), w')
           | None \<Rightarrow> ((True, None), w')))"

definition ScaleDeploymentDownToZero_get ::
  "'w Framework \<Rightarrow> Deployment \<Rightarrow> 'w \<Rightarrow> (bool \<times> error option) \<times> 'w" where
  "ScaleDeploymentDownToZero_get f deployment w =
     (case Deployments_Get (KubeClient f)
             (Namespace (Deployment.ObjectMeta deployment))
             (Name (Deployment.ObjectMeta deployment)) w of
        ((result, err), w') \<Rightarrow>
          (case err of
             Some e \<Rightarrow> if Contains e ''not found'' then ((True, None), w') else ((False, None), w')
           | None \<Rightarrow>
               if AvailableReplicas (Deployment.Status result) = 0
               then ((True, None), w') else ((False, None), w')))"

definition ScaleDeploymentDownToZero ::
  "'w Framework \<Rightarrow> Deployment option \<Rightarrow> 'w
     \<Rightarrow> ((GoPanic + PollResult) \<times> Deployment option \<times> 'w) option" where
  "ScaleDeploymentDownToZero f p w =
     (case p of
        None \<Rightarrow> Some (Inl NilPointerDereference, None, w)
      | Some d \<Rightarrow>
          (let zero = 0;
               deployment = d\<lparr>Deployment.Spec :=
                                (Deployment.Spec d)\<lparr>DeploymentSpec.Replicas := Some zero\<rparr>\<rparr>
           in case Poll PollInterval PoolDeletionTimeout
                     (ScaleDeploymentDownToZero_update f deployment) w of
                None \<Rightarrow> None
              | Some (err, ticks, w') \<Rightarrow>
                  if err \<noteq> Success then Some (Inr err, Some deployment, w')
                  else (case Poll PollInterval PoolDeletionTimeout
                               (ScaleDeploymentDownToZero_get f deployment) w' of
                          None \<Rightarrow> None
                        | Some (err', ticks', w'') \<Rightarrow> Some (Inr err', Some deployment, w''))))"

subsection \<open>Wait until deleted\<close>

text \<open>
  The condition function of \<open>WaitUntilDeleted\<close>; \<open>delFnc\<close> and \<open>getFnc\<close> are the caller's
  callbacks.
\<close>

definition WaitUntilDeleted_condition ::
  "('w \<Rightarrow> error option \<times> 'w) \<Rightarrow> ('w \<Rightarrow> error option \<times> 'w) \<Rightarrow> 'w \<Rightarrow> (bool \<times> error option) \<times> 'w" where
  "WaitUntilDeleted_condition delFnc getFnc w =
     (case delFnc w of
        (Some e, w') \<Rightarrow>
          if Contains e ''object is being deleted'' then ((False, None), w')
          else if Contains e ''not found'' then ((True, None), w')
          else ((False, None), w')
      | (None, w') \<Rightarrow>
          (case getFnc w' of
             (err, w'') \<Rightarrow>
               (case err of
                  Some e \<Rightarrow>
                    if Contains e ''not found'' then ((True, None), w'') else ((False, None), w'')
                | None \<Rightarrow> ((False, None), w''))))"

definition WaitUntilDeleted ::
  "('w \<Rightarrow> error option \<times> 'w) \<Rightarrow> ('w \<Rightarrow> error option \<times> 'w) \<Rightarrow> 'w
     \<Rightarrow> (PollResult \<times> Duration list \<times> 'w) option" where
  "WaitUntilDeleted delFnc getFnc w =
     Poll PollInterval PoolDeletionTimeout (WaitUntilDeleted_condition delFnc getFnc) w"

section \<open>Concrete collaborators\<close>

text \<open>
  Collaborators for running the operations on concrete inputs. The remote world is the
  log of the calls made so far. A recording callback always gives the same answer and
  appends its name to the log; the recording client does so for the four calls of the
  apps client.
\<close>

definition recording :: "string \<Rightarrow> 'a \<Rightarrow> string list \<Rightarrow> 'a \<times> string list" where
  "recording name answer log = (answer, log @ [name])"

definition recording_client ::
  "StatefulSet \<times> error option \<Rightarrow> StatefulSet \<times> error option \<Rightarrow>
   Deployment \<times> error option \<Rightarrow> Deployment \<times> error option \<Rightarrow> (string list) Framework" where
  "recording_client su sg du dg =
     \<lparr>KubeClient =
        \<lparr>StatefulSets_Update = (\<lambda>ns obj. recording ''StatefulSets.Update'' su),
         StatefulSets_Get = (\<lambda>ns name. recording ''StatefulSets.Get'' sg),
         Deployments_Update = (\<lambda>ns obj. recording ''Deployments.Update'' du),
         Deployments_Get = (\<lambda>ns name. recording ''Deployments.Get'' dg)\<rparr>\<rparr>"

text \<open>
  A stateful set and a deployment named \<open>db\<close> in namespace \<open>default\<close> with two replicas
  reported, ready and updated; the desired count and the counter that the observe
  phase reads are left open.
\<close>

definition a_StatefulSet :: "32 word option \<Rightarrow> 32 word \<Rightarrow> StatefulSet" where
  "a_StatefulSet desired current =
     \<lparr>StatefulSet.ObjectMeta = \<lparr>Name = ''db'', Namespace = ''default''\<rparr>,
      StatefulSet.Spec = \<lparr>StatefulSetSpec.Replicas = desired\<rparr>,
      StatefulSet.Status =
        \<lparr>StatefulSetStatus.Replicas = 2, StatefulSetStatus.ReadyReplicas = 2,
         CurrentReplicas = current, StatefulSetStatus.UpdatedReplicas = 2\<rparr>\<rparr>"

definition a_Deployment :: "32 word option \<Rightarrow> 32 word \<Rightarrow> Deployment" where
  "a_Deployment desired available =
     \<lparr>Deployment.ObjectMeta = \<lparr>Name = ''db'', Namespace = ''default''\<rparr>,
      Deployment.Spec = \<lparr>DeploymentSpec.Replicas = desired\<rparr>,
      Deployment.Status =
        \<lparr>DeploymentStatus.Replicas = 2, DeploymentStatus.UpdatedReplicas = 2,
         DeploymentStatus.ReadyReplicas = 2, AvailableReplicas = available,
         UnavailableReplicas = 0\<rparr>\<rparr>"

text \<open>
  Three remote sides: one on which every call fails with a connection error, one on
  which the object does not exist, and one on which updates are accepted and the reads
  return the objects above with the stateful set's \<open>CurrentReplicas\<close> at 0 and the
  deployment's \<open>AvailableReplicas\<close> at 2.
\<close>

definition unreachable_client :: "(string list) Framework" where
  "unreachable_client =
     recording_client (a_StatefulSet None 0, Some ''connection refused'')
       (a_StatefulSet None 0, Some ''connection refused'')
       (a_Deployment None 0, Some ''connection refused'')
       (a_Deployment None 0, Some ''connection refused'')"

definition absent_client :: "(string list) Framework" where
  "absent_client =
     recording_client (a_StatefulSet None 0, Some ''statefulsets.apps db not found'')
       (a_StatefulSet None 0, Some ''statefulsets.apps db not found'')
       (a_Deployment None 0, Some ''deployments.apps db not found'')
       (a_Deployment None 0, Some ''deployments.apps db not found'')"

definition accepting_client :: "(string list) Framework" where
  "accepting_client =
     recording_client (a_StatefulSet (Some 0) 0, None) (a_StatefulSet (Some 0) 0, None)
       (a_Deployment (Some 0) 2, None) (a_Deployment (Some 0) 2, None)"

text \<open>
  A remote side on which only the objects named \<open>db\<close> in namespace \<open>default\<close> do not
  exist: calls on them answer "not found", an update of any other object is accepted
  and a read of any other object returns it scaled down.
\<close>

definition only_db_absent_client :: "(string list) Framework" where
  "only_db_absent_client =
     \<lparr>KubeClient =
        \<lparr>StatefulSets_Update = (\<lambda>ns obj.
           if ns = ''default'' \<and> Name (StatefulSet.ObjectMeta obj) = ''db''
           then recording ''StatefulSets.Update''
                  (a_StatefulSet None 0, Some ''statefulsets.apps db not found'')
           else recording ''StatefulSets.Update'' (obj, None)),
         StatefulSets_Get = (\<lambda>ns name.
           if ns = ''default'' \<and> name = ''db''
           then recording ''StatefulSets.Get''
                  (a_StatefulSet None 0, Some ''statefulsets.apps db not found'')
           else recording ''StatefulSets.Get'' (a_StatefulSet (Some 0) 0, None)),
         Deployments_Update = (\<lambda>ns obj.
           if ns = ''default'' \<and> Name (Deployment.ObjectMeta obj) = ''db''
           then recording ''Deployments.Update''
                  (a_Deployment None 0, Some ''deployments.apps db not found'')
           else recording ''Deployments.Update'' (obj, None)),
         Deployments_Get = (\<lambda>ns name.
           if ns = ''default'' \<and> name = ''db''
           then recording ''Deployments.Get''
                  (a_Deployment None 0, Some ''deployments.apps db not found'')
           else recording ''Deployments.Get'' (a_Deployment (Some 0) 0, None))\<rparr>\<rparr>"

section \<open>Properties of the poller\<close>

text \<open>\<open>Contains\<close> is the contiguous-sublist relation of the library.\<close>

lemma Contains_iff_sublist: "Contains s substr = sublist substr s"
  by (induction s) (auto simp: sublist_Cons_right)

lemma tick_times_shift:
  "e # map (\<lambda>k. (e + i) + int k * i) [0..<n] = map (\<lambda>k. e + int k * (i::int)) [0..<Suc n]"
proof -
  have "map (\<lambda>k. e + int k * i) [0..<Suc n] = (e + int 0 * i) # map (\<lambda>k. e + int k * i) [Suc 0..<Suc n]"
    by (simp add: upt_conv_Cons del: upt_Suc)
  also have "map (\<lambda>k. e + int k * i) [Suc 0..<Suc n] = map (\<lambda>k. e + int (Suc k) * i) [0..<n]"
    by (simp only: map_Suc_upt[symmetric] map_map o_def)
  finally show ?thesis by (simp add: algebra_simps)
qed

text \<open>
  A poll loop with a positive interval returns. It makes ticks \<open>0..n\<close> for some \<open>n\<close>,
  one interval apart; every tick before the last was \<open>Pending\<close> and left room for one
  more tick within the timeout; the last tick decides the result.
\<close>

lemma poll_loop_run:
  assumes "0 < interval"
  shows "\<exists>n. (\<forall>k<n. tick_outcome condition k w = Pending)
            \<and> (\<forall>k<n. elapsed + (int k + 1) * interval \<le> timeout)
            \<and> (tick_outcome condition n w = Pending \<longrightarrow> timeout < elapsed + (int n + 1) * interval)
            \<and> poll_loop interval timeout condition elapsed ticks w =
                Some (final_result (tick_outcome condition n w),
                      ticks @ map (\<lambda>k. elapsed + int k * interval) [0..<Suc n],
                      snd (condition (tick_state condition n w)))"
proof (induction "nat (timeout - elapsed)" arbitrary: elapsed ticks w rule: less_induct)
  case less
  obtain r w' where cw: "condition w = (r, w')" by (cases "condition w")
  show ?case
  proof (cases "outcome r = Pending \<and> \<not> timeout < elapsed + interval")
    case False
    then have "poll_loop interval timeout condition elapsed ticks w =
        Some (final_result (outcome r), ticks @ [elapsed], w')"
      by (subst poll_loop.simps) (auto simp: cw split: PollOutcome.splits)
    with False cw show ?thesis
      by (intro exI[of _ 0]) (auto simp: tick_outcome_def)
  next
    case True
    then have step: "poll_loop interval timeout condition elapsed ticks w =
        poll_loop interval timeout condition (elapsed + interval) (ticks @ [elapsed]) w'"
      by (subst poll_loop.simps) (auto simp: cw)
    from True assms have "nat (timeout - (elapsed + interval)) < nat (timeout - elapsed)"
      by auto
    from less[OF this, where ticks="ticks @ [elapsed]" and w=w']
    obtain n where n:
      "\<forall>k<n. tick_outcome condition k w' = Pending"
      "\<forall>k<n. (elapsed + interval) + (int k + 1) * interval \<le> timeout"
      "tick_outcome condition n w' = Pending \<longrightarrow> timeout < (elapsed + interval) + (int n + 1) * interval"
      "poll_loop interval timeout condition (elapsed + interval) (ticks @ [elapsed]) w' =
         Some (final_result (tick_outcome condition n w'),
               (ticks @ [elapsed]) @ map (\<lambda>k. (elapsed + interval) + int k * interval) [0..<Suc n],
               snd (condition (tick_state condition n w')))"
      by blast
    have shift: "\<And>k. tick_outcome condition (Suc k) w = tick_outcome condition k w'"
      by (simp add: tick_outcome_def cw)
    have st: "tick_state condition (Suc n) w = tick_state condition n w'"
      by (simp add: cw)
    have a: "\<forall>k<Suc n. tick_outcome condition k w = Pending"
    proof (intro allI impI)
      fix k assume "k < Suc n"
      then show "tick_outcome condition k w = Pending"
        using n(1) True shift by (cases k) (auto simp: tick_outcome_def cw)
    qed
    have b: "\<forall>k<Suc n. elapsed + (int k + 1) * interval \<le> timeout"
    proof (intro allI impI)
      fix k assume "k < Suc n"
      then show "elapsed + (int k + 1) * interval \<le> timeout"
        using n(2) True by (cases k) (auto simp: algebra_simps)
    qed
    have c: "tick_outcome condition (Suc n) w = Pending \<longrightarrow> timeout < elapsed + (int (Suc n) + 1) * interval"
      using n(3) by (simp add: shift algebra_simps)
    have d: "poll_loop interval timeout condition elapsed ticks w =
                Some (final_result (tick_outcome condition (Suc n) w),
                      ticks @ map (\<lambda>k. elapsed + int k * interval) [0..<Suc (Suc n)],
                      snd (condition (tick_state condition (Suc n) w)))"
      unfolding step n(4) shift st tick_times_shift[symmetric, of elapsed interval "Suc n"] by simp
    from a b c d show ?thesis by blast
  qed
qed

lemma Poll_run:
  assumes "0 < interval"
  shows "\<exists>n. (\<forall>k<n. tick_outcome condition k w = Pending)
            \<and> (\<forall>k<n. (int k + 1) * interval \<le> timeout)
            \<and> (tick_outcome condition n w = Pending \<longrightarrow> timeout < (int n + 1) * interval)
            \<and> Poll interval timeout condition w =
                Some (final_result (tick_outcome condition n w),
                      map (\<lambda>k. int k * interval) [0..<Suc n],
                      snd (condition (tick_state condition n w)))"
  using poll_loop_run[OF assms, where condition=condition and w=w and elapsed=0 and timeout=timeout and ticks="[]"] unfolding Poll_def by simp

text \<open>
  The framework polls every 5 seconds for one minute: a run that times out has made
  the ticks \<open>0..12\<close>.
\<close>

lemma PollInterval_pos: "0 < PollInterval"
  by (simp add: PollInterval_def Second_def)

lemma budget_ticks:
  assumes "\<forall>k<n. (int k + 1) * PollInterval \<le> PoolDeletionTimeout"
    and "PoolDeletionTimeout < (int n + 1) * PollInterval"
  shows "n = 12"
proof -
  have "n \<le> 12"
  proof (rule ccontr)
    assume "\<not> n \<le> 12"
    then have "12 < n" by simp
    with assms(1) have "(int 12 + 1) * PollInterval \<le> PoolDeletionTimeout" by blast
    then show False by (simp add: PollInterval_def PoolDeletionTimeout_def Minute_def Second_def)
  qed
  moreover from assms(2) have "12 \<le> n"
    by (simp add: PollInterval_def PoolDeletionTimeout_def Minute_def Second_def)
  ultimately show ?thesis by simp
qed

text \<open>A condition that never returns an error never yields \<open>Failed\<close>.\<close>

lemma never_Failed:
  assumes "\<And>w. snd (fst (condition w)) = None"
  shows "tick_outcome condition n w = Converged \<or> tick_outcome condition n w = Pending"
proof -
  obtain b e where "fst (condition (tick_state condition n w)) = (b, e)"
    by (cases "fst (condition (tick_state condition n w))")
  moreover with assms[of "tick_state condition n w"] have "e = None" by simp
  ultimately show ?thesis by (cases b) (simp_all add: tick_outcome_def)
qed

text \<open>A run of the fixed poll spec of the framework on a condition that never fails.\<close>

lemma Poll_framework_run:
  assumes "\<And>w. snd (fst (condition w)) = None"
  shows "\<exists>n r w'. Poll PollInterval PoolDeletionTimeout condition w =
            Some (r, map (\<lambda>k. int k * PollInterval) [0..<Suc n], w')
          \<and> (r = Success \<or> r = TimedOut \<and> n = 12)"
proof -
  from Poll_run[OF PollInterval_pos, where condition=condition and w=w and timeout=PoolDeletionTimeout]
  obtain n where n:
    "\<forall>k<n. (int k + 1) * PollInterval \<le> PoolDeletionTimeout"
    "tick_outcome condition n w = Pending \<longrightarrow> PoolDeletionTimeout < (int n + 1) * PollInterval"
    "Poll PollInterval PoolDeletionTimeout condition w =
       Some (final_result (tick_outcome condition n w),
             map (\<lambda>k. int k * PollInterval) [0..<Suc n],
             snd (condition (tick_state condition n w)))"
    by blast
  from never_Failed[OF assms, where n=n and w=w] show ?thesis
  proof
    assume "tick_outcome condition n w = Converged"
    with n(3) have "Poll PollInterval PoolDeletionTimeout condition w =
        Some (Success, map (\<lambda>k. int k * PollInterval) [0..<Suc n],
              snd (condition (tick_state condition n w)))"
      by (simp del: upt_Suc)
    then show ?thesis by blast
  next
    assume p: "tick_outcome condition n w = Pending"
    with n(1,2) have n12: "n = 12" by (intro budget_ticks) auto
    from n(3) p have "Poll PollInterval PoolDeletionTimeout condition w =
        Some (TimedOut, map (\<lambda>k. int k * PollInterval) [0..<Suc n],
              snd (condition (tick_state condition n w)))"
      by (simp del: upt_Suc)
    with n12 show ?thesis by blast
  qed
qed

text \<open>None of the five condition functions of the framework returns an error.\<close>

lemma WaitUntilDeleted_condition_no_error:
  "snd (fst (WaitUntilDeleted_condition delFnc getFnc w)) = None"
  by (simp add: WaitUntilDeleted_condition_def split: prod.splits option.splits)

lemma ScaleSatefulSetDownToZero_update_no_error:
  "snd (fst (ScaleSatefulSetDownToZero_update f s w)) = None"
  by (simp add: ScaleSatefulSetDownToZero_update_def split: prod.splits option.splits)

lemma ScaleSatefulSetDownToZero_get_no_error:
  "snd (fst (ScaleSatefulSetDownToZero_get f s w)) = None"
  by (simp add: ScaleSatefulSetDownToZero_get_def split: prod.splits option.splits)

lemma ScaleDeploymentDownToZero_update_no_error:
  "snd (fst (ScaleDeploymentDownToZero_update f s w)) = None"
  by (simp add: ScaleDeploymentDownToZero_update_def split: prod.splits option.splits)

lemma ScaleDeploymentDownToZero_get_no_error:
  "snd (fst (ScaleDeploymentDownToZero_get f s w)) = None"
  by (simp add: ScaleDeploymentDownToZero_get_def split: prod.splits option.splits)

text \<open>
  With an interval of 1, a timeout of 3 and a step that stays \<open>Pending\<close> the ticks are at
  0, 1, 2 and 3: the boundary tick is made.
\<close>

lemma always_pending_run:
  "Poll 1 3 (\<lambda>w::nat. ((False, None), Suc w)) 0 = Some (TimedOut, [0, 1, 2, 3], 4)"
  by (simp add: Poll_def poll_loop.simps)

text \<open>One tick of the loop, by the outcome of the condition.\<close>

lemma poll_loop_Converged:
  assumes "outcome (fst (condition w)) = Converged"
  shows "poll_loop interval timeout condition elapsed ticks w =
           Some (Success, ticks @ [elapsed], snd (condition w))"
proof -
  obtain r w' where "condition w = (r, w')" by (cases "condition w")
  with assms show ?thesis by (subst poll_loop.simps) simp
qed

lemma poll_loop_Pending:
  assumes "outcome (fst (condition w)) = Pending"
  shows "poll_loop interval timeout condition elapsed ticks w =
           (if timeout < elapsed + interval
            then Some (TimedOut, ticks @ [elapsed], snd (condition w))
            else poll_loop interval timeout condition (elapsed + interval) (ticks @ [elapsed])
                   (snd (condition w)))"
proof -
  obtain r w' where "condition w = (r, w')" by (cases "condition w")
  with assms show ?thesis by (subst poll_loop.simps) simp
qed

text \<open>One tick of the loop on a condition that returns no error.\<close>

lemma poll_loop_tick:
  assumes "condition w = ((b, None), w')"
  shows "poll_loop interval timeout condition elapsed ticks w =
           (if b then Some (Success, ticks @ [elapsed], w')
            else if timeout < elapsed + interval then Some (TimedOut, ticks @ [elapsed], w')
            else poll_loop interval timeout condition (elapsed + interval) (ticks @ [elapsed]) w')"
  using assms by (subst poll_loop.simps) (cases b; simp)

text \<open>A run of the fixed poll spec on a condition that never fails is never \<open>Fatal\<close>.\<close>

lemma Poll_framework_result:
  assumes "\<And>w. snd (fst (condition w)) = None"
    and "Poll PollInterval PoolDeletionTimeout condition w = Some (r, ticks, w')"
  shows "r = Success \<or> r = TimedOut"
  using Poll_framework_run[where condition=condition and w=w, OF assms(1)] assms(2) by auto

text \<open>A condition that holds on the first tick ends the run at elapsed time zero.\<close>

lemma Poll_first_tick:
  assumes "condition w = ((True, None), w')"
  shows "Poll interval timeout condition w = Some (Success, [0], w')"
  unfolding Poll_def using poll_loop_tick[where condition=condition and w=w, OF assms] by simp

text \<open>
  Scaling an object whose own update and read report it as not found: each phase makes
  one call, at elapsed time zero.
\<close>

lemma ScaleSatefulSetDownToZero_absent:
  assumes "\<forall>w. \<exists>e. snd (fst (StatefulSets_Update (KubeClient f)
                             (Namespace (StatefulSet.ObjectMeta s)) (s\<lparr>StatefulSet.Spec := (StatefulSet.Spec s)\<lparr>StatefulSetSpec.Replicas := Some 0\<rparr>\<rparr>) w)) = Some e
                 \<and> Contains e ''not found''"
    and "\<forall>w. \<exists>e. snd (fst (StatefulSets_Get (KubeClient f)
                             (Namespace (StatefulSet.ObjectMeta s))
                             (Name (StatefulSet.ObjectMeta s)) w)) = Some e
                 \<and> Contains e ''not found''"
  shows "Poll PollInterval PoolDeletionTimeout (ScaleSatefulSetDownToZero_update f (s\<lparr>StatefulSet.Spec := (StatefulSet.Spec s)\<lparr>StatefulSetSpec.Replicas := Some 0\<rparr>\<rparr>)) w
           = Some (Success, [0], (snd (StatefulSets_Update (KubeClient f) (Namespace (StatefulSet.ObjectMeta s)) (s\<lparr>StatefulSet.Spec := (StatefulSet.Spec s)\<lparr>StatefulSetSpec.Replicas := Some 0\<rparr>\<rparr>) w)))
       \<and> Poll PollInterval PoolDeletionTimeout (ScaleSatefulSetDownToZero_get f (s\<lparr>StatefulSet.Spec := (StatefulSet.Spec s)\<lparr>StatefulSetSpec.Replicas := Some 0\<rparr>\<rparr>)) (snd (StatefulSets_Update (KubeClient f) (Namespace (StatefulSet.ObjectMeta s)) (s\<lparr>StatefulSet.Spec := (StatefulSet.Spec s)\<lparr>StatefulSetSpec.Replicas := Some 0\<rparr>\<rparr>) w))
           = Some (Success, [0], (snd (StatefulSets_Get (KubeClient f) (Namespace (StatefulSet.ObjectMeta s)) (Name (StatefulSet.ObjectMeta s)) (snd (StatefulSets_Update (KubeClient f) (Namespace (StatefulSet.ObjectMeta s)) (s\<lparr>StatefulSet.Spec := (StatefulSet.Spec s)\<lparr>StatefulSetSpec.Replicas := Some 0\<rparr>\<rparr>) w)))))
       \<and> ScaleSatefulSetDownToZero f (Some s) w
           = Some (Inr Success, Some (s\<lparr>StatefulSet.Spec := (StatefulSet.Spec s)\<lparr>StatefulSetSpec.Replicas := Some 0\<rparr>\<rparr>), (snd (StatefulSets_Get (KubeClient f) (Namespace (StatefulSet.ObjectMeta s)) (Name (StatefulSet.ObjectMeta s)) (snd (StatefulSets_Update (KubeClient f) (Namespace (StatefulSet.ObjectMeta s)) (s\<lparr>StatefulSet.Spec := (StatefulSet.Spec s)\<lparr>StatefulSetSpec.Replicas := Some 0\<rparr>\<rparr>) w)))))"
proof -
  have u: "ScaleSatefulSetDownToZero_update f (s\<lparr>StatefulSet.Spec := (StatefulSet.Spec s)\<lparr>StatefulSetSpec.Replicas := Some 0\<rparr>\<rparr>) w = ((True, None), (snd (StatefulSets_Update (KubeClient f) (Namespace (StatefulSet.ObjectMeta s)) (s\<lparr>StatefulSet.Spec := (StatefulSet.Spec s)\<lparr>StatefulSetSpec.Replicas := Some 0\<rparr>\<rparr>) w)))"
    using assms(1)[rule_format, of w]
    by (auto simp: ScaleSatefulSetDownToZero_update_def split: prod.splits option.splits)
  have g: "ScaleSatefulSetDownToZero_get f (s\<lparr>StatefulSet.Spec := (StatefulSet.Spec s)\<lparr>StatefulSetSpec.Replicas := Some 0\<rparr>\<rparr>) (snd (StatefulSets_Update (KubeClient f) (Namespace (StatefulSet.ObjectMeta s)) (s\<lparr>StatefulSet.Spec := (StatefulSet.Spec s)\<lparr>StatefulSetSpec.Replicas := Some 0\<rparr>\<rparr>) w)) = ((True, None), (snd (StatefulSets_Get (KubeClient f) (Namespace (StatefulSet.ObjectMeta s)) (Name (StatefulSet.ObjectMeta s)) (snd (StatefulSets_Update (KubeClient f) (Namespace (StatefulSet.ObjectMeta s)) (s\<lparr>StatefulSet.Spec := (StatefulSet.Spec s)\<lparr>StatefulSetSpec.Replicas := Some 0\<rparr>\<rparr>) w)))))"
    using assms(2)[rule_format, of "(snd (StatefulSets_Update (KubeClient f) (Namespace (StatefulSet.ObjectMeta s)) (s\<lparr>StatefulSet.Spec := (StatefulSet.Spec s)\<lparr>StatefulSetSpec.Replicas := Some 0\<rparr>\<rparr>) w))"]
    by (auto simp: ScaleSatefulSetDownToZero_get_def split: prod.splits option.splits)
  have pu: "Poll PollInterval PoolDeletionTimeout (ScaleSatefulSetDownToZero_update f (s\<lparr>StatefulSet.Spec := (StatefulSet.Spec s)\<lparr>StatefulSetSpec.Replicas := Some 0\<rparr>\<rparr>)) w = Some (Success, [0], (snd (StatefulSets_Update (KubeClient f) (Namespace (StatefulSet.ObjectMeta s)) (s\<lparr>StatefulSet.Spec := (StatefulSet.Spec s)\<lparr>StatefulSetSpec.Replicas := Some 0\<rparr>\<rparr>) w)))"
    by (rule Poll_first_tick) (rule u)
  have pg: "Poll PollInterval PoolDeletionTimeout (ScaleSatefulSetDownToZero_get f (s\<lparr>StatefulSet.Spec := (StatefulSet.Spec s)\<lparr>StatefulSetSpec.Replicas := Some 0\<rparr>\<rparr>)) (snd (StatefulSets_Update (KubeClient f) (Namespace (StatefulSet.ObjectMeta s)) (s\<lparr>StatefulSet.Spec := (StatefulSet.Spec s)\<lparr>StatefulSetSpec.Replicas := Some 0\<rparr>\<rparr>) w)) = Some (Success, [0], (snd (StatefulSets_Get (KubeClient f) (Namespace (StatefulSet.ObjectMeta s)) (Name (StatefulSet.ObjectMeta s)) (snd (StatefulSets_Update (KubeClient f) (Namespace (StatefulSet.ObjectMeta s)) (s\<lparr>StatefulSet.Spec := (StatefulSet.Spec s)\<lparr>StatefulSetSpec.Replicas := Some 0\<rparr>\<rparr>) w)))))"
    by (rule Poll_first_tick) (rule g)
  have "ScaleSatefulSetDownToZero f (Some s) w = Some (Inr Success, Some (s\<lparr>StatefulSet.Spec := (StatefulSet.Spec s)\<lparr>StatefulSetSpec.Replicas := Some 0\<rparr>\<rparr>), (snd (StatefulSets_Get (KubeClient f) (Namespace (StatefulSet.ObjectMeta s)) (Name (StatefulSet.ObjectMeta s)) (snd (StatefulSets_Update (KubeClient f) (Namespace (StatefulSet.ObjectMeta s)) (s\<lparr>StatefulSet.Spec := (StatefulSet.Spec s)\<lparr>StatefulSetSpec.Replicas := Some 0\<rparr>\<rparr>) w)))))"
    unfolding ScaleSatefulSetDownToZero_def by (simp add: Let_def pu pg)
  with pu pg show ?thesis by blast
qed

lemma ScaleDeploymentDownToZero_absent:
  assumes "\<forall>v. \<exists>e. snd (fst (Deployments_Update (KubeClient f)
                             (Namespace (Deployment.ObjectMeta d)) (d\<lparr>Deployment.Spec := (Deployment.Spec d)\<lparr>DeploymentSpec.Replicas := Some 0\<rparr>\<rparr>) v)) = Some e
                 \<and> Contains e ''not found''"
    and "\<forall>v. \<exists>e. snd (fst (Deployments_Get (KubeClient f)
                             (Namespace (Deployment.ObjectMeta d))
                             (Name (Deployment.ObjectMeta d)) v)) = Some e
                 \<and> Contains e ''not found''"
  shows "Poll PollInterval PoolDeletionTimeout (ScaleDeploymentDownToZero_update f (d\<lparr>Deployment.Spec := (Deployment.Spec d)\<lparr>DeploymentSpec.Replicas := Some 0\<rparr>\<rparr>)) v
           = Some (Success, [0], (snd (Deployments_Update (KubeClient f) (Namespace (Deployment.ObjectMeta d)) (d\<lparr>Deployment.Spec := (Deployment.Spec d)\<lparr>DeploymentSpec.Replicas := Some 0\<rparr>\<rparr>) v)))
       \<and> Poll PollInterval PoolDeletionTimeout (ScaleDeploymentDownToZero_get f (d\<lparr>Deployment.Spec := (Deployment.Spec d)\<lparr>DeploymentSpec.Replicas := Some 0\<rparr>\<rparr>)) (snd (Deployments_Update (KubeClient f) (Namespace (Deployment.ObjectMeta d)) (d\<lparr>Deployment.Spec := (Deployment.Spec d)\<lparr>DeploymentSpec.Replicas := Some 0\<rparr>\<rparr>) v))
           = Some (Success, [0], (snd (Deployments_Get (KubeClient f) (Namespace (Deployment.ObjectMeta d)) (Name (Deployment.ObjectMeta d)) (snd (Deployments_Update (KubeClient f) (Namespace (Deployment.ObjectMeta d)) (d\<lparr>Deployment.Spec := (Deployment.Spec d)\<lparr>DeploymentSpec.Replicas := Some 0\<rparr>\<rparr>) v)))))
       \<and> ScaleDeploymentDownToZero f (Some d) v
           = Some (Inr Success, Some (d\<lparr>Deployment.Spec := (Deployment.Spec d)\<lparr>DeploymentSpec.Replicas := Some 0\<rparr>\<rparr>), (snd (Deployments_Get (KubeClient f) (Namespace (Deployment.ObjectMeta d)) (Name (Deployment.ObjectMeta d)) (snd (Deployments_Update (KubeClient f) (Namespace (Deployment.ObjectMeta d)) (d\<lparr>Deployment.Spec := (Deployment.Spec d)\<lparr>DeploymentSpec.Replicas := Some 0\<rparr>\<rparr>) v)))))"
proof -
  have u: "ScaleDeploymentDownToZero_update f (d\<lparr>Deployment.Spec := (Deployment.Spec d)\<lparr>DeploymentSpec.Replicas := Some 0\<rparr>\<rparr>) v = ((True, None), (snd (Deployments_Update (KubeClient f) (Namespace (Deployment.ObjectMeta d)) (d\<lparr>Deployment.Spec := (Deployment.Spec d)\<lparr>DeploymentSpec.Replicas := Some 0\<rparr>\<rparr>) v)))"
    using assms(1)[rule_format, of v]
    by (auto simp: ScaleDeploymentDownToZero_update_def split: prod.splits option.splits)
  have g: "ScaleDeploymentDownToZero_get f (d\<lparr>Deployment.Spec := (Deployment.Spec d)\<lparr>DeploymentSpec.Replicas := Some 0\<rparr>\<rparr>) (snd (Deployments_Update (KubeClient f) (Namespace (Deployment.ObjectMeta d)) (d\<lparr>Deployment.Spec := (Deployment.Spec d)\<lparr>DeploymentSpec.Replicas := Some 0\<rparr>\<rparr>) v)) = ((True, None), (snd (Deployments_Get (KubeClient f) (Namespace (Deployment.ObjectMeta d)) (Name (Deployment.ObjectMeta d)) (snd (Deployments_Update (KubeClient f) (Namespace (Deployment.ObjectMeta d)) (d\<lparr>Deployment.Spec := (Deployment.Spec d)\<lparr>DeploymentSpec.Replicas := Some 0\<rparr>\<rparr>) v)))))"
    using assms(2)[rule_format, of "(snd (Deployments_Update (KubeClient f) (Namespace (Deployment.ObjectMeta d)) (d\<lparr>Deployment.Spec := (Deployment.Spec d)\<lparr>DeploymentSpec.Replicas := Some 0\<rparr>\<rparr>) v))"]
    by (auto simp: ScaleDeploymentDownToZero_get_def split: prod.splits option.splits)
  have pu: "Poll PollInterval PoolDeletionTimeout (ScaleDeploymentDownToZero_update f (d\<lparr>Deployment.Spec := (Deployment.Spec d)\<lparr>DeploymentSpec.Replicas := Some 0\<rparr>\<rparr>)) v = Some (Success, [0], (snd (Deployments_Update (KubeClient f) (Namespace (Deployment.ObjectMeta d)) (d\<lparr>Deployment.Spec := (Deployment.Spec d)\<lparr>DeploymentSpec.Replicas := Some 0\<rparr>\<rparr>) v)))"
    by (rule Poll_first_tick) (rule u)
  have pg: "Poll PollInterval PoolDeletionTimeout (ScaleDeploymentDownToZero_get f (d\<lparr>Deployment.Spec := (Deployment.Spec d)\<lparr>DeploymentSpec.Replicas := Some 0\<rparr>\<rparr>)) (snd (Deployments_Update (KubeClient f) (Namespace (Deployment.ObjectMeta d)) (d\<lparr>Deployment.Spec := (Deployment.Spec d)\<lparr>DeploymentSpec.Replicas := Some 0\<rparr>\<rparr>) v)) = Some (Success, [0], (snd (Deployments_Get (KubeClient f) (Namespace (Deployment.ObjectMeta d)) (Name (Deployment.ObjectMeta d)) (snd (Deployments_Update (KubeClient f) (Namespace (Deployment.ObjectMeta d)) (d\<lparr>Deployment.Spec := (Deployment.Spec d)\<lparr>DeploymentSpec.Replicas := Some 0\<rparr>\<rparr>) v)))))"
    by (rule Poll_first_tick) (rule g)
  have "ScaleDeploymentDownToZero f (Some d) v = Some (Inr Success, Some (d\<lparr>Deployment.Spec := (Deployment.Spec d)\<lparr>DeploymentSpec.Replicas := Some 0\<rparr>\<rparr>), (snd (Deployments_Get (KubeClient f) (Namespace (Deployment.ObjectMeta d)) (Name (Deployment.ObjectMeta d)) (snd (Deployments_Update (KubeClient f) (Namespace (Deployment.ObjectMeta d)) (d\<lparr>Deployment.Spec := (Deployment.Spec d)\<lparr>DeploymentSpec.Replicas := Some 0\<rparr>\<rparr>) v)))))"
    unfolding ScaleDeploymentDownToZero_def by (simp add: Let_def pu pg)
  with pu pg show ?thesis by blast
qed

section \<open>The claims\<close>

text \<open>
  C1. Whatever the delete and get callbacks return, \<open>WaitUntilDeleted\<close> returns, and
  its result is \<open>Success\<close> or \<open>TimedOut\<close>, never \<open>Fatal\<close>; a \<open>TimedOut\<close> result comes
  only after all thirteen ticks of the budget (at 0, 5, ..., 60 seconds) were made.
  The condition function never returns a non-nil error, in any world.
\<close>

theorem WaitUntilDeleted_never_fatal:
  "(\<exists>n r w'. WaitUntilDeleted delFnc getFnc w =
        Some (r, map (\<lambda>k. int k * PollInterval) [0..<Suc n], w')
      \<and> (r = Success \<or> r = TimedOut \<and> n = 12))
   \<and> snd (fst (WaitUntilDeleted_condition delFnc getFnc w0)) = None"
  unfolding WaitUntilDeleted_def
  using Poll_framework_run[where condition="WaitUntilDeleted_condition delFnc getFnc" and w=w]
  by (simp add: WaitUntilDeleted_condition_no_error)

text \<open>
  C2. A tick of \<open>WaitUntilDeleted\<close> on which the delete callback returns an error, the
  three cases read in order: a message containing "object is being deleted" gives
  \<open>Pending\<close>; otherwise a message containing "not found" gives \<open>Converged\<close>, and the poll
  run returns \<open>Success\<close> at this tick; any other message gives \<open>Pending\<close>. On \<open>Pending\<close>
  the loop goes on to the next tick unless the timeout would be exceeded. In all three
  cases the world after the tick is the one the delete callback left: the get callback
  is not invoked.
\<close>

theorem WaitUntilDeleted_delete_error:
  assumes "delFnc w = (Some e, w')"
  shows "WaitUntilDeleted_condition delFnc getFnc w =
           ((if Contains e ''object is being deleted'' then False
             else if Contains e ''not found'' then True else False, None), w')
       \<and> outcome (fst (WaitUntilDeleted_condition delFnc getFnc w)) =
           (if Contains e ''object is being deleted'' then Pending
            else if Contains e ''not found'' then Converged else Pending)
       \<and> poll_loop PollInterval PoolDeletionTimeout
            (WaitUntilDeleted_condition delFnc getFnc) elapsed ticks w =
           (if Contains e ''object is being deleted'' \<or> \<not> Contains e ''not found''
            then if PoolDeletionTimeout < elapsed + PollInterval
                 then Some (TimedOut, ticks @ [elapsed], w')
                 else poll_loop PollInterval PoolDeletionTimeout
                        (WaitUntilDeleted_condition delFnc getFnc)
                        (elapsed + PollInterval) (ticks @ [elapsed]) w'
            else Some (Success, ticks @ [elapsed], w'))"
proof -
  have c: "WaitUntilDeleted_condition delFnc getFnc w =
           ((if Contains e ''object is being deleted'' then False
             else if Contains e ''not found'' then True else False, None), w')"
    using assms by (simp add: WaitUntilDeleted_condition_def)
  then have o: "outcome (fst (WaitUntilDeleted_condition delFnc getFnc w)) =
           (if Contains e ''object is being deleted'' then Pending
            else if Contains e ''not found'' then Converged else Pending)"
    by simp
  show ?thesis
  proof (cases "Contains e ''object is being deleted'' \<or> \<not> Contains e ''not found''")
    case True
    with o have "outcome (fst (WaitUntilDeleted_condition delFnc getFnc w)) = Pending" by auto
    from poll_loop_Pending[where condition="WaitUntilDeleted_condition delFnc getFnc", OF this]
      c o True show ?thesis by auto
  next
    case False
    with o have "outcome (fst (WaitUntilDeleted_condition delFnc getFnc w)) = Converged" by auto
    from poll_loop_Converged[where condition="WaitUntilDeleted_condition delFnc getFnc", OF this]
      c o False show ?thesis by auto
  qed
qed


theorem WaitUntilDeleted_delete_error_witness:
  "recording ''delete'' (Some ''machine not found'') [] = (Some ''machine not found'', [''delete''])
   \<and> WaitUntilDeleted_condition (recording ''delete'' (Some ''machine not found''))
         (recording ''get'' None) [] = ((True, None), [''delete''])
   \<and> poll_loop PollInterval PoolDeletionTimeout
         (WaitUntilDeleted_condition (recording ''delete'' (Some ''machine not found''))
            (recording ''get'' None)) 0 [] [] = Some (Success, [0], [''delete''])"
  using WaitUntilDeleted_delete_error[where delFnc="recording ''delete'' (Some ''machine not found'')"
      and getFnc="recording ''get'' None" and w="[]" and e="''machine not found''"
      and w'="[''delete'']" and elapsed=0 and ticks="[]"]
  by (simp add: recording_def)

text \<open>
  C3. A tick of \<open>WaitUntilDeleted\<close> on which the delete callback returns nil: the get
  callback is invoked in the same tick, on the world the delete callback left. The tick
  is \<open>Converged\<close> exactly when get returns an error whose message contains "not found",
  and \<open>Pending\<close> in every other case, also when get returns nil.
\<close>

theorem WaitUntilDeleted_delete_accepted:
  assumes "delFnc w = (None, w')" and "getFnc w' = (err, w'')"
  shows "WaitUntilDeleted_condition delFnc getFnc w =
           ((case err of Some e \<Rightarrow> Contains e ''not found'' | None \<Rightarrow> False, None), w'')
       \<and> snd (WaitUntilDeleted_condition delFnc getFnc w) = snd (getFnc (snd (delFnc w)))
       \<and> (outcome (fst (WaitUntilDeleted_condition delFnc getFnc w)) = Converged
            \<longleftrightarrow> (\<exists>e. err = Some e \<and> Contains e ''not found''))
       \<and> (outcome (fst (WaitUntilDeleted_condition delFnc getFnc w)) = Pending
            \<longleftrightarrow> \<not> (\<exists>e. err = Some e \<and> Contains e ''not found''))"
  using assms by (auto simp: WaitUntilDeleted_condition_def split: option.splits)

theorem WaitUntilDeleted_delete_accepted_witness:
  "recording ''delete'' None [] = (None, [''delete''])
   \<and> recording ''get'' (Some ''machine not found'') [''delete'']
       = (Some ''machine not found'', [''delete'', ''get''])
   \<and> WaitUntilDeleted_condition (recording ''delete'' None)
         (recording ''get'' (Some ''machine not found'')) [] = ((True, None), [''delete'', ''get''])
   \<and> outcome (fst (WaitUntilDeleted_condition (recording ''delete'' None)
         (recording ''get'' (Some ''machine not found'')) [])) = Converged"
  using WaitUntilDeleted_delete_accepted[where delFnc="recording ''delete'' None"
      and getFnc="recording ''get'' (Some ''machine not found'')" and w="[]"
      and w'="[''delete'']" and err="Some ''machine not found''" and w''="[''delete'', ''get'']"]
  by (simp add: recording_def)

text \<open>
  C4. For a positive interval the poller returns, and its ticks are exactly at the
  elapsed times \<open>0, interval, ..., n * interval\<close>: the step is invoked at elapsed time
  zero and then once per interval. Every tick before the last was \<open>Pending\<close> with the
  next tick still within the timeout; the run ends at the first tick that is
  \<open>Converged\<close> (\<open>Success\<close>) or \<open>Failed\<close> (\<open>Fatal\<close>), or that is \<open>Pending\<close> when one more
  interval would exceed the timeout (\<open>TimedOut\<close>).
\<close>

theorem Poll_ticks:
  assumes "0 < interval"
  shows "\<exists>n. (\<forall>k<n. tick_outcome condition k w = Pending)
            \<and> (\<forall>k<n. (int k + 1) * interval \<le> timeout)
            \<and> (tick_outcome condition n w = Pending \<longrightarrow> timeout < (int n + 1) * interval)
            \<and> Poll interval timeout condition w =
                Some (final_result (tick_outcome condition n w),
                      map (\<lambda>k. int k * interval) [0..<Suc n],
                      snd (condition (tick_state condition n w)))"
  using poll_loop_run[OF assms, where condition=condition and w=w and elapsed=0 and timeout=timeout and ticks="[]"] unfolding Poll_def by simp

theorem Poll_ticks_witness:
  "0 < (1::int) \<and> (\<exists>n. (\<forall>k<n. tick_outcome (\<lambda>w::nat. ((False, None), Suc w)) k 0 = Pending)
            \<and> (\<forall>k<n. (int k + 1) * 1 \<le> 3)
            \<and> (tick_outcome (\<lambda>w::nat. ((False, None), Suc w)) n 0 = Pending \<longrightarrow> 3 < (int n + 1) * 1)
            \<and> Poll 1 3 (\<lambda>w::nat. ((False, None), Suc w)) 0 =
                Some (final_result (tick_outcome (\<lambda>w::nat. ((False, None), Suc w)) n 0),
                      map (\<lambda>k. int k * 1) [0..<Suc n],
                      snd ((\<lambda>w::nat. ((False, None), Suc w)) (tick_state (\<lambda>w::nat. ((False, None), Suc w)) n 0))))"
  using Poll_ticks[where interval=1 and condition="\<lambda>w::nat. ((False, None), Suc w)" and w=0 and timeout=3] by simp

text \<open>
  C5. In both variants of scale-to-zero the observe phase is a poll run started on the
  world that the mutate phase left, and only when the mutate phase returned \<open>Success\<close>.
  The mutate phase ends in \<open>Success\<close> or \<open>TimedOut\<close>; when it ends in \<open>TimedOut\<close> that
  error is the result of the operation, and the remote world is the one the mutate
  phase left: no read was issued. The example runs against a remote side that refuses
  every connection: thirteen updates, no read.
\<close>

theorem ScaleDownToZero_observe_after_mutate:
  assumes "Poll PollInterval PoolDeletionTimeout
             (ScaleSatefulSetDownToZero_update f
                (s\<lparr>StatefulSet.Spec := (StatefulSet.Spec s)\<lparr>StatefulSetSpec.Replicas := Some 0\<rparr>\<rparr>)) w
           = Some (err, ticks, w')"
    and "Poll PollInterval PoolDeletionTimeout
             (ScaleDeploymentDownToZero_update f
                (d\<lparr>Deployment.Spec := (Deployment.Spec d)\<lparr>DeploymentSpec.Replicas := Some 0\<rparr>\<rparr>)) v
           = Some (derr, dticks, v')"
  shows "(err = Success \<or> err = TimedOut)
       \<and> ScaleSatefulSetDownToZero f (Some s) w =
           (if err = Success
            then map_option
                   (\<lambda>(r, t, w'').
                      (Inr r,
                       Some (s\<lparr>StatefulSet.Spec :=
                                  (StatefulSet.Spec s)\<lparr>StatefulSetSpec.Replicas := Some 0\<rparr>\<rparr>), w''))
                   (Poll PollInterval PoolDeletionTimeout
                      (ScaleSatefulSetDownToZero_get f
                         (s\<lparr>StatefulSet.Spec :=
                              (StatefulSet.Spec s)\<lparr>StatefulSetSpec.Replicas := Some 0\<rparr>\<rparr>)) w')
            else Some (Inr err,
                       Some (s\<lparr>StatefulSet.Spec :=
                                  (StatefulSet.Spec s)\<lparr>StatefulSetSpec.Replicas := Some 0\<rparr>\<rparr>), w'))
       \<and> (derr = Success \<or> derr = TimedOut)
       \<and> ScaleDeploymentDownToZero f (Some d) v =
           (if derr = Success
            then map_option
                   (\<lambda>(r, t, v'').
                      (Inr r,
                       Some (d\<lparr>Deployment.Spec :=
                                  (Deployment.Spec d)\<lparr>DeploymentSpec.Replicas := Some 0\<rparr>\<rparr>), v''))
                   (Poll PollInterval PoolDeletionTimeout
                      (ScaleDeploymentDownToZero_get f
                         (d\<lparr>Deployment.Spec :=
                              (Deployment.Spec d)\<lparr>DeploymentSpec.Replicas := Some 0\<rparr>\<rparr>)) v')
            else Some (Inr derr,
                       Some (d\<lparr>Deployment.Spec :=
                                  (Deployment.Spec d)\<lparr>DeploymentSpec.Replicas := Some 0\<rparr>\<rparr>), v'))"
proof -
  have a: "err = Success \<or> err = TimedOut"
    using Poll_framework_result[OF ScaleSatefulSetDownToZero_update_no_error assms(1)] .
  have b: "derr = Success \<or> derr = TimedOut"
    using Poll_framework_result[OF ScaleDeploymentDownToZero_update_no_error assms(2)] .
  have c: "ScaleSatefulSetDownToZero f (Some s) w =
           (if err = Success
            then map_option
                   (\<lambda>(r, t, w'').
                      (Inr r,
                       Some (s\<lparr>StatefulSet.Spec :=
                                  (StatefulSet.Spec s)\<lparr>StatefulSetSpec.Replicas := Some 0\<rparr>\<rparr>), w''))
                   (Poll PollInterval PoolDeletionTimeout
                      (ScaleSatefulSetDownToZero_get f
                         (s\<lparr>StatefulSet.Spec :=
                              (StatefulSet.Spec s)\<lparr>StatefulSetSpec.Replicas := Some 0\<rparr>\<rparr>)) w')
            else Some (Inr err,
                       Some (s\<lparr>StatefulSet.Spec :=
                                  (StatefulSet.Spec s)\<lparr>StatefulSetSpec.Replicas := Some 0\<rparr>\<rparr>), w'))"
    unfolding ScaleSatefulSetDownToZero_def using assms(1)
    by (simp add: Let_def split: option.splits)
  have d: "ScaleDeploymentDownToZero f (Some d) v =
           (if derr = Success
            then map_option
                   (\<lambda>(r, t, v'').
                      (Inr r,
                       Some (d\<lparr>Deployment.Spec :=
                                  (Deployment.Spec d)\<lparr>DeploymentSpec.Replicas := Some 0\<rparr>\<rparr>), v''))
                   (Poll PollInterval PoolDeletionTimeout
                      (ScaleDeploymentDownToZero_get f
                         (d\<lparr>Deployment.Spec :=
                              (Deployment.Spec d)\<lparr>DeploymentSpec.Replicas := Some 0\<rparr>\<rparr>)) v')
            else Some (Inr derr,
                       Some (d\<lparr>Deployment.Spec :=
                                  (Deployment.Spec d)\<lparr>DeploymentSpec.Replicas := Some 0\<rparr>\<rparr>), v'))"
    unfolding ScaleDeploymentDownToZero_def using assms(2)
    by (simp add: Let_def split: option.splits)
  from a b c d show ?thesis by blast
qed



theorem ScaleDownToZero_observe_after_mutate_witness:
  "Poll PollInterval PoolDeletionTimeout (ScaleSatefulSetDownToZero_update unreachable_client
        ((a_StatefulSet (Some 3) 2)\<lparr>StatefulSet.Spec := (StatefulSet.Spec (a_StatefulSet (Some 3) 2))\<lparr>StatefulSetSpec.Replicas := Some 0\<rparr>\<rparr>)) []
     = Some (TimedOut, map (\<lambda>k. int k * PollInterval) [0..<13], replicate 13 ''StatefulSets.Update'')
   \<and> Poll PollInterval PoolDeletionTimeout (ScaleDeploymentDownToZero_update unreachable_client
        ((a_Deployment (Some 3) 2)\<lparr>Deployment.Spec := (Deployment.Spec (a_Deployment (Some 3) 2))\<lparr>DeploymentSpec.Replicas := Some 0\<rparr>\<rparr>)) []
     = Some (TimedOut, map (\<lambda>k. int k * PollInterval) [0..<13], replicate 13 ''Deployments.Update'')
   \<and> ScaleSatefulSetDownToZero unreachable_client (Some (a_StatefulSet (Some 3) 2)) []
     = Some (Inr TimedOut, Some (a_StatefulSet (Some 0) 2), replicate 13 ''StatefulSets.Update'')
   \<and> ScaleDeploymentDownToZero unreachable_client (Some (a_Deployment (Some 3) 2)) []
     = Some (Inr TimedOut, Some (a_Deployment (Some 0) 2), replicate 13 ''Deployments.Update'')"
proof -
  have h1: "Poll PollInterval PoolDeletionTimeout (ScaleSatefulSetDownToZero_update unreachable_client
        ((a_StatefulSet (Some 3) 2)\<lparr>StatefulSet.Spec := (StatefulSet.Spec (a_StatefulSet (Some 3) 2))\<lparr>StatefulSetSpec.Replicas := Some 0\<rparr>\<rparr>)) []
     = Some (TimedOut, map (\<lambda>k. int k * PollInterval) [0..<13], replicate 13 ''StatefulSets.Update'')"
    by code_simp
  have h2: "Poll PollInterval PoolDeletionTimeout (ScaleDeploymentDownToZero_update unreachable_client
        ((a_Deployment (Some 3) 2)\<lparr>Deployment.Spec := (Deployment.Spec (a_Deployment (Some 3) 2))\<lparr>DeploymentSpec.Replicas := Some 0\<rparr>\<rparr>)) []
     = Some (TimedOut, map (\<lambda>k. int k * PollInterval) [0..<13], replicate 13 ''Deployments.Update'')"
    by code_simp
  have e1: "((a_StatefulSet (Some 3) 2)\<lparr>StatefulSet.Spec := (StatefulSet.Spec (a_StatefulSet (Some 3) 2))\<lparr>StatefulSetSpec.Replicas := Some 0\<rparr>\<rparr>) = a_StatefulSet (Some 0) 2"
    by (simp add: a_StatefulSet_def)
  have e2: "((a_Deployment (Some 3) 2)\<lparr>Deployment.Spec := (Deployment.Spec (a_Deployment (Some 3) 2))\<lparr>DeploymentSpec.Replicas := Some 0\<rparr>\<rparr>) = a_Deployment (Some 0) 2"
    by (simp add: a_Deployment_def)
  from ScaleDownToZero_observe_after_mutate[OF h1 h2] h1 h2 show ?thesis
    by (simp only: e1 e2 PollResult.distinct if_False simp_thms)
qed

text \<open>
  C6. A tick of the mutate phase, in both variants. The object submitted has its
  desired replica count set to zero. The condition returns no error; it returns
  \<open>true\<close> when the update returned nil or an error whose message contains
  "not found", and then the phase returns \<open>Success\<close> at this tick; on any other error
  it returns \<open>false\<close>, and the loop goes on to the next tick unless the timeout would be
  exceeded.
\<close>

theorem ScaleDownToZero_update_tick:
  assumes "StatefulSets_Update (KubeClient f) (Namespace (StatefulSet.ObjectMeta s))
             (s\<lparr>StatefulSet.Spec := (StatefulSet.Spec s)\<lparr>StatefulSetSpec.Replicas := Some 0\<rparr>\<rparr>) w = ((result, err), w')"
    and "Deployments_Update (KubeClient f) (Namespace (Deployment.ObjectMeta d))
             (d\<lparr>Deployment.Spec := (Deployment.Spec d)\<lparr>DeploymentSpec.Replicas := Some 0\<rparr>\<rparr>) v = ((dresult, derr), v')"
  shows "StatefulSetSpec.Replicas (StatefulSet.Spec (s\<lparr>StatefulSet.Spec := (StatefulSet.Spec s)\<lparr>StatefulSetSpec.Replicas := Some 0\<rparr>\<rparr>)) = Some 0
       \<and> ScaleSatefulSetDownToZero_update f (s\<lparr>StatefulSet.Spec := (StatefulSet.Spec s)\<lparr>StatefulSetSpec.Replicas := Some 0\<rparr>\<rparr>) w
           = ((case err of None \<Rightarrow> True | Some e \<Rightarrow> Contains e ''not found'', None), w')
       \<and> poll_loop PollInterval PoolDeletionTimeout
            (ScaleSatefulSetDownToZero_update f (s\<lparr>StatefulSet.Spec := (StatefulSet.Spec s)\<lparr>StatefulSetSpec.Replicas := Some 0\<rparr>\<rparr>)) elapsed ticks w
           = (if (case err of None \<Rightarrow> True | Some e \<Rightarrow> Contains e ''not found'')
              then Some (Success, ticks @ [elapsed], w')
              else if PoolDeletionTimeout < elapsed + PollInterval
              then Some (TimedOut, ticks @ [elapsed], w')
              else poll_loop PollInterval PoolDeletionTimeout
                     (ScaleSatefulSetDownToZero_update f (s\<lparr>StatefulSet.Spec := (StatefulSet.Spec s)\<lparr>StatefulSetSpec.Replicas := Some 0\<rparr>\<rparr>))
                     (elapsed + PollInterval) (ticks @ [elapsed]) w')
       \<and> DeploymentSpec.Replicas (Deployment.Spec (d\<lparr>Deployment.Spec := (Deployment.Spec d)\<lparr>DeploymentSpec.Replicas := Some 0\<rparr>\<rparr>)) = Some 0
       \<and> ScaleDeploymentDownToZero_update f (d\<lparr>Deployment.Spec := (Deployment.Spec d)\<lparr>DeploymentSpec.Replicas := Some 0\<rparr>\<rparr>) v
           = ((case derr of None \<Rightarrow> True | Some e \<Rightarrow> Contains e ''not found'', None), v')
       \<and> poll_loop PollInterval PoolDeletionTimeout
            (ScaleDeploymentDownToZero_update f (d\<lparr>Deployment.Spec := (Deployment.Spec d)\<lparr>DeploymentSpec.Replicas := Some 0\<rparr>\<rparr>)) delapsed dticks v
           = (if (case derr of None \<Rightarrow> True | Some e \<Rightarrow> Contains e ''not found'')
              then Some (Success, dticks @ [delapsed], v')
              else if PoolDeletionTimeout < delapsed + PollInterval
              then Some (TimedOut, dticks @ [delapsed], v')
              else poll_loop PollInterval PoolDeletionTimeout
                     (ScaleDeploymentDownToZero_update f (d\<lparr>Deployment.Spec := (Deployment.Spec d)\<lparr>DeploymentSpec.Replicas := Some 0\<rparr>\<rparr>))
                     (delapsed + PollInterval) (dticks @ [delapsed]) v')"
proof -
  have a: "ScaleSatefulSetDownToZero_update f (s\<lparr>StatefulSet.Spec := (StatefulSet.Spec s)\<lparr>StatefulSetSpec.Replicas := Some 0\<rparr>\<rparr>) w
           = ((case err of None \<Rightarrow> True | Some e \<Rightarrow> Contains e ''not found'', None), w')"
    using assms(1) by (simp add: ScaleSatefulSetDownToZero_update_def split: option.splits)
  have b: "ScaleDeploymentDownToZero_update f (d\<lparr>Deployment.Spec := (Deployment.Spec d)\<lparr>DeploymentSpec.Replicas := Some 0\<rparr>\<rparr>) v
           = ((case derr of None \<Rightarrow> True | Some e \<Rightarrow> Contains e ''not found'', None), v')"
    using assms(2) by (simp add: ScaleDeploymentDownToZero_update_def split: option.splits)
  show ?thesis
    using a b
      poll_loop_tick[where condition="ScaleSatefulSetDownToZero_update f (s\<lparr>StatefulSet.Spec := (StatefulSet.Spec s)\<lparr>StatefulSetSpec.Replicas := Some 0\<rparr>\<rparr>)" and w=w
        and elapsed=elapsed and ticks=ticks, OF a]
      poll_loop_tick[where condition="ScaleDeploymentDownToZero_update f (d\<lparr>Deployment.Spec := (Deployment.Spec d)\<lparr>DeploymentSpec.Replicas := Some 0\<rparr>\<rparr>)" and w=v
        and elapsed=delapsed and ticks=dticks, OF b]
    by simp
qed

theorem ScaleDownToZero_update_tick_witness:
  "StatefulSets_Update (KubeClient absent_client)
       (Namespace (StatefulSet.ObjectMeta (a_StatefulSet (Some 3) 2))) ((a_StatefulSet (Some 3) 2)\<lparr>StatefulSet.Spec := (StatefulSet.Spec (a_StatefulSet (Some 3) 2))\<lparr>StatefulSetSpec.Replicas := Some 0\<rparr>\<rparr>) []
     = ((a_StatefulSet None 0, Some ''statefulsets.apps db not found''), [''StatefulSets.Update''])
   \<and> Deployments_Update (KubeClient unreachable_client)
       (Namespace (Deployment.ObjectMeta (a_Deployment (Some 3) 2))) ((a_Deployment (Some 3) 2)\<lparr>Deployment.Spec := (Deployment.Spec (a_Deployment (Some 3) 2))\<lparr>DeploymentSpec.Replicas := Some 0\<rparr>\<rparr>) []
     = ((a_Deployment None 0, Some ''connection refused''), [''Deployments.Update''])
   \<and> ScaleSatefulSetDownToZero_update absent_client ((a_StatefulSet (Some 3) 2)\<lparr>StatefulSet.Spec := (StatefulSet.Spec (a_StatefulSet (Some 3) 2))\<lparr>StatefulSetSpec.Replicas := Some 0\<rparr>\<rparr>) []
     = ((True, None), [''StatefulSets.Update''])
   \<and> poll_loop PollInterval PoolDeletionTimeout
         (ScaleSatefulSetDownToZero_update absent_client ((a_StatefulSet (Some 3) 2)\<lparr>StatefulSet.Spec := (StatefulSet.Spec (a_StatefulSet (Some 3) 2))\<lparr>StatefulSetSpec.Replicas := Some 0\<rparr>\<rparr>)) 0 [] []
     = Some (Success, [0], [''StatefulSets.Update''])
   \<and> ScaleDeploymentDownToZero_update unreachable_client ((a_Deployment (Some 3) 2)\<lparr>Deployment.Spec := (Deployment.Spec (a_Deployment (Some 3) 2))\<lparr>DeploymentSpec.Replicas := Some 0\<rparr>\<rparr>) []
     = ((False, None), [''Deployments.Update''])"
proof -
  have h1: "StatefulSets_Update (KubeClient absent_client)
       (Namespace (StatefulSet.ObjectMeta (a_StatefulSet (Some 3) 2))) ((a_StatefulSet (Some 3) 2)\<lparr>StatefulSet.Spec := (StatefulSet.Spec (a_StatefulSet (Some 3) 2))\<lparr>StatefulSetSpec.Replicas := Some 0\<rparr>\<rparr>) []
     = ((a_StatefulSet None 0, Some ''statefulsets.apps db not found''), [''StatefulSets.Update''])"
    by (simp add: absent_client_def recording_client_def recording_def)
  have h2: "Deployments_Update (KubeClient absent_client)
       (Namespace (Deployment.ObjectMeta (a_Deployment (Some 3) 2))) ((a_Deployment (Some 3) 2)\<lparr>Deployment.Spec := (Deployment.Spec (a_Deployment (Some 3) 2))\<lparr>DeploymentSpec.Replicas := Some 0\<rparr>\<rparr>) []
     = ((a_Deployment None 0, Some ''deployments.apps db not found''), [''Deployments.Update''])"
    by (simp add: absent_client_def recording_client_def recording_def)
  have h3: "Deployments_Update (KubeClient unreachable_client)
       (Namespace (Deployment.ObjectMeta (a_Deployment (Some 3) 2))) ((a_Deployment (Some 3) 2)\<lparr>Deployment.Spec := (Deployment.Spec (a_Deployment (Some 3) 2))\<lparr>DeploymentSpec.Replicas := Some 0\<rparr>\<rparr>) []
     = ((a_Deployment None 0, Some ''connection refused''), [''Deployments.Update''])"
    by (simp add: unreachable_client_def recording_client_def recording_def)
  have h4: "StatefulSets_Update (KubeClient unreachable_client)
       (Namespace (StatefulSet.ObjectMeta (a_StatefulSet (Some 3) 2))) ((a_StatefulSet (Some 3) 2)\<lparr>StatefulSet.Spec := (StatefulSet.Spec (a_StatefulSet (Some 3) 2))\<lparr>StatefulSetSpec.Replicas := Some 0\<rparr>\<rparr>) []
     = ((a_StatefulSet None 0, Some ''connection refused''), [''StatefulSets.Update''])"
    by (simp add: unreachable_client_def recording_client_def recording_def)
  from ScaleDownToZero_update_tick[OF h1 h2, where elapsed=0 and ticks="[]"]
    ScaleDownToZero_update_tick[OF h4 h3]
    h1 h3
  show ?thesis by simp
qed

text \<open>
  C7, as stated, fails: the observed count is not one status field common to the two
  variants. The stateful set read below and the deployment read below agree on every
  counter the two status structs share (\<open>Replicas\<close>, \<open>ReadyReplicas\<close>,
  \<open>UpdatedReplicas\<close>), yet the stateful set tick is \<open>Converged\<close> and the deployment tick
  is \<open>Pending\<close>: the first reads \<open>Status.CurrentReplicas\<close>, the second
  \<open>Status.AvailableReplicas\<close>.
\<close>

theorem observed_count_field_counterexample:
  "StatefulSets_Get (KubeClient accepting_client) ''default'' ''db'' []
     = ((a_StatefulSet (Some 0) 0, None), [''StatefulSets.Get''])
   \<and> Deployments_Get (KubeClient accepting_client) ''default'' ''db'' []
     = ((a_Deployment (Some 0) 2, None), [''Deployments.Get''])
   \<and> StatefulSetStatus.Replicas (StatefulSet.Status (a_StatefulSet (Some 0) 0))
     = DeploymentStatus.Replicas (Deployment.Status (a_Deployment (Some 0) 2))
   \<and> StatefulSetStatus.ReadyReplicas (StatefulSet.Status (a_StatefulSet (Some 0) 0))
     = DeploymentStatus.ReadyReplicas (Deployment.Status (a_Deployment (Some 0) 2))
   \<and> StatefulSetStatus.UpdatedReplicas (StatefulSet.Status (a_StatefulSet (Some 0) 0))
     = DeploymentStatus.UpdatedReplicas (Deployment.Status (a_Deployment (Some 0) 2))
   \<and> outcome (fst (ScaleSatefulSetDownToZero_get accepting_client (a_StatefulSet (Some 0) 2) []))
     = Converged
   \<and> outcome (fst (ScaleDeploymentDownToZero_get accepting_client (a_Deployment (Some 0) 2) []))
     = Pending"
  by (simp add: ScaleSatefulSetDownToZero_get_def ScaleDeploymentDownToZero_get_def
      accepting_client_def recording_client_def recording_def a_StatefulSet_def a_Deployment_def)

text \<open>
  C7, amended. A tick of the observe phase returns no error; it returns \<open>true\<close>, and
  the phase \<open>Success\<close>, when the read returned an error whose message contains
  "not found", or returned nil and an observed count of zero; in every other case it
  returns \<open>false\<close> and the loop goes on unless the timeout would be exceeded. The
  observed count is \<open>Status.CurrentReplicas\<close> for a stateful set and
  \<open>Status.AvailableReplicas\<close> for a deployment.
\<close>

theorem ScaleDownToZero_get_tick:
  assumes "StatefulSets_Get (KubeClient f) (Namespace (StatefulSet.ObjectMeta s))
             (Name (StatefulSet.ObjectMeta s)) w = ((result, err), w')"
    and "Deployments_Get (KubeClient f) (Namespace (Deployment.ObjectMeta d))
             (Name (Deployment.ObjectMeta d)) v = ((dresult, derr), v')"
  shows "ScaleSatefulSetDownToZero_get f s w
           = ((case err of Some e \<Rightarrow> Contains e ''not found''
               | None \<Rightarrow> CurrentReplicas (StatefulSet.Status result) = 0, None), w')
       \<and> poll_loop PollInterval PoolDeletionTimeout
            (ScaleSatefulSetDownToZero_get f s) elapsed ticks w
           = (if (case err of Some e \<Rightarrow> Contains e ''not found''
                  | None \<Rightarrow> CurrentReplicas (StatefulSet.Status result) = 0)
              then Some (Success, ticks @ [elapsed], w')
              else if PoolDeletionTimeout < elapsed + PollInterval
              then Some (TimedOut, ticks @ [elapsed], w')
              else poll_loop PollInterval PoolDeletionTimeout
                     (ScaleSatefulSetDownToZero_get f s)
                     (elapsed + PollInterval) (ticks @ [elapsed]) w')
       \<and> ScaleDeploymentDownToZero_get f d v
           = ((case derr of Some e \<Rightarrow> Contains e ''not found''
               | None \<Rightarrow> AvailableReplicas (Deployment.Status dresult) = 0, None), v')
       \<and> poll_loop PollInterval PoolDeletionTimeout
            (ScaleDeploymentDownToZero_get f d) delapsed dticks v
           = (if (case derr of Some e \<Rightarrow> Contains e ''not found''
                  | None \<Rightarrow> AvailableReplicas (Deployment.Status dresult) = 0)
              then Some (Success, dticks @ [delapsed], v')
              else if PoolDeletionTimeout < delapsed + PollInterval
              then Some (TimedOut, dticks @ [delapsed], v')
              else poll_loop PollInterval PoolDeletionTimeout
                     (ScaleDeploymentDownToZero_get f d)
                     (delapsed + PollInterval) (dticks @ [delapsed]) v')"
proof -
  have a: "ScaleSatefulSetDownToZero_get f s w
           = ((case err of Some e \<Rightarrow> Contains e ''not found''
               | None \<Rightarrow> CurrentReplicas (StatefulSet.Status result) = 0, None), w')"
    using assms(1) by (simp add: ScaleSatefulSetDownToZero_get_def split: option.splits)
  have b: "ScaleDeploymentDownToZero_get f d v
           = ((case derr of Some e \<Rightarrow> Contains e ''not found''
               | None \<Rightarrow> AvailableReplicas (Deployment.Status dresult) = 0, None), v')"
    using assms(2) by (simp add: ScaleDeploymentDownToZero_get_def split: option.splits)
  show ?thesis
    using a b
      poll_loop_tick[where condition="ScaleSatefulSetDownToZero_get f s" and w=w
        and elapsed=elapsed and ticks=ticks, OF a]
      poll_loop_tick[where condition="ScaleDeploymentDownToZero_get f d" and w=v
        and elapsed=delapsed and ticks=dticks, OF b]
    by simp
qed


theorem ScaleDownToZero_get_tick_witness:
  "StatefulSets_Get (KubeClient accepting_client)
       (Namespace (StatefulSet.ObjectMeta (a_StatefulSet (Some 0) 2)))
       (Name (StatefulSet.ObjectMeta (a_StatefulSet (Some 0) 2))) []
     = ((a_StatefulSet (Some 0) 0, None), [''StatefulSets.Get''])
   \<and> Deployments_Get (KubeClient accepting_client)
       (Namespace (Deployment.ObjectMeta (a_Deployment (Some 0) 2)))
       (Name (Deployment.ObjectMeta (a_Deployment (Some 0) 2))) []
     = ((a_Deployment (Some 0) 2, None), [''Deployments.Get''])
   \<and> ScaleSatefulSetDownToZero_get accepting_client (a_StatefulSet (Some 0) 2) []
     = ((True, None), [''StatefulSets.Get''])
   \<and> ScaleDeploymentDownToZero_get accepting_client (a_Deployment (Some 0) 2) []
     = ((False, None), [''Deployments.Get''])"
proof -
  have h1: "StatefulSets_Get (KubeClient accepting_client)
       (Namespace (StatefulSet.ObjectMeta (a_StatefulSet (Some 0) 2)))
       (Name (StatefulSet.ObjectMeta (a_StatefulSet (Some 0) 2))) []
     = ((a_StatefulSet (Some 0) 0, None), [''StatefulSets.Get''])"
    by (simp add: accepting_client_def recording_client_def recording_def)
  have h2: "Deployments_Get (KubeClient accepting_client)
       (Namespace (Deployment.ObjectMeta (a_Deployment (Some 0) 2)))
       (Name (Deployment.ObjectMeta (a_Deployment (Some 0) 2))) []
     = ((a_Deployment (Some 0) 2, None), [''Deployments.Get''])"
    by (simp add: accepting_client_def recording_client_def recording_def)
  from ScaleDownToZero_get_tick[OF h1 h2] h1 h2 show ?thesis
    by (simp add: a_StatefulSet_def a_Deployment_def)
qed

text \<open>
  C8. When every update that submits the object and every read of its namespace and
  name answers, in whatever remote world, with an error whose message contains
  "not found", scale-to-zero returns \<open>Success\<close>: the mutate phase succeeds on its only
  tick, at elapsed time zero, after one update; the observe phase likewise after one
  read. This holds for a stateful set and for a deployment, each on its own calls
  only. In the example only the object named \<open>db\<close> is absent; other objects exist.
\<close>

theorem ScaleDownToZero_absent:
  "(((\<forall>w. \<exists>e. snd (fst (StatefulSets_Update (KubeClient f)
                             (Namespace (StatefulSet.ObjectMeta s)) (s\<lparr>StatefulSet.Spec := (StatefulSet.Spec s)\<lparr>StatefulSetSpec.Replicas := Some 0\<rparr>\<rparr>) w)) = Some e
                 \<and> Contains e ''not found'')
     \<and> (\<forall>w. \<exists>e. snd (fst (StatefulSets_Get (KubeClient f)
                             (Namespace (StatefulSet.ObjectMeta s))
                             (Name (StatefulSet.ObjectMeta s)) w)) = Some e
                 \<and> Contains e ''not found''))
    \<longrightarrow> Poll PollInterval PoolDeletionTimeout (ScaleSatefulSetDownToZero_update f (s\<lparr>StatefulSet.Spec := (StatefulSet.Spec s)\<lparr>StatefulSetSpec.Replicas := Some 0\<rparr>\<rparr>)) w
           = Some (Success, [0], (snd (StatefulSets_Update (KubeClient f) (Namespace (StatefulSet.ObjectMeta s)) (s\<lparr>StatefulSet.Spec := (StatefulSet.Spec s)\<lparr>StatefulSetSpec.Replicas := Some 0\<rparr>\<rparr>) w)))
       \<and> Poll PollInterval PoolDeletionTimeout (ScaleSatefulSetDownToZero_get f (s\<lparr>StatefulSet.Spec := (StatefulSet.Spec s)\<lparr>StatefulSetSpec.Replicas := Some 0\<rparr>\<rparr>)) (snd (StatefulSets_Update (KubeClient f) (Namespace (StatefulSet.ObjectMeta s)) (s\<lparr>StatefulSet.Spec := (StatefulSet.Spec s)\<lparr>StatefulSetSpec.Replicas := Some 0\<rparr>\<rparr>) w))
           = Some (Success, [0], (snd (StatefulSets_Get (KubeClient f) (Namespace (StatefulSet.ObjectMeta s)) (Name (StatefulSet.ObjectMeta s)) (snd (StatefulSets_Update (KubeClient f) (Namespace (StatefulSet.ObjectMeta s)) (s\<lparr>StatefulSet.Spec := (StatefulSet.Spec s)\<lparr>StatefulSetSpec.Replicas := Some 0\<rparr>\<rparr>) w)))))
       \<and> ScaleSatefulSetDownToZero f (Some s) w
           = Some (Inr Success, Some (s\<lparr>StatefulSet.Spec := (StatefulSet.Spec s)\<lparr>StatefulSetSpec.Replicas := Some 0\<rparr>\<rparr>), (snd (StatefulSets_Get (KubeClient f) (Namespace (StatefulSet.ObjectMeta s)) (Name (StatefulSet.ObjectMeta s)) (snd (StatefulSets_Update (KubeClient f) (Namespace (StatefulSet.ObjectMeta s)) (s\<lparr>StatefulSet.Spec := (StatefulSet.Spec s)\<lparr>StatefulSetSpec.Replicas := Some 0\<rparr>\<rparr>) w))))))
   \<and> (((\<forall>v. \<exists>e. snd (fst (Deployments_Update (KubeClient f)
                             (Namespace (Deployment.ObjectMeta d)) (d\<lparr>Deployment.Spec := (Deployment.Spec d)\<lparr>DeploymentSpec.Replicas := Some 0\<rparr>\<rparr>) v)) = Some e
                 \<and> Contains e ''not found'')
     \<and> (\<forall>v. \<exists>e. snd (fst (Deployments_Get (KubeClient f)
                             (Namespace (Deployment.ObjectMeta d))
                             (Name (Deployment.ObjectMeta d)) v)) = Some e
                 \<and> Contains e ''not found''))
    \<longrightarrow> Poll PollInterval PoolDeletionTimeout (ScaleDeploymentDownToZero_update f (d\<lparr>Deployment.Spec := (Deployment.Spec d)\<lparr>DeploymentSpec.Replicas := Some 0\<rparr>\<rparr>)) v
           = Some (Success, [0], (snd (Deployments_Update (KubeClient f) (Namespace (Deployment.ObjectMeta d)) (d\<lparr>Deployment.Spec := (Deployment.Spec d)\<lparr>DeploymentSpec.Replicas := Some 0\<rparr>\<rparr>) v)))
       \<and> Poll PollInterval PoolDeletionTimeout (ScaleDeploymentDownToZero_get f (d\<lparr>Deployment.Spec := (Deployment.Spec d)\<lparr>DeploymentSpec.Replicas := Some 0\<rparr>\<rparr>)) (snd (Deployments_Update (KubeClient f) (Namespace (Deployment.ObjectMeta d)) (d\<lparr>Deployment.Spec := (Deployment.Spec d)\<lparr>DeploymentSpec.Replicas := Some 0\<rparr>\<rparr>) v))
           = Some (Success, [0], (snd (Deployments_Get (KubeClient f) (Namespace (Deployment.ObjectMeta d)) (Name (Deployment.ObjectMeta d)) (snd (Deployments_Update (KubeClient f) (Namespace (Deployment.ObjectMeta d)) (d\<lparr>Deployment.Spec := (Deployment.Spec d)\<lparr>DeploymentSpec.Replicas := Some 0\<rparr>\<rparr>) v)))))
       \<and> ScaleDeploymentDownToZero f (Some d) v
           = Some (Inr Success, Some (d\<lparr>Deployment.Spec := (Deployment.Spec d)\<lparr>DeploymentSpec.Replicas := Some 0\<rparr>\<rparr>), (snd (Deployments_Get (KubeClient f) (Namespace (Deployment.ObjectMeta d)) (Name (Deployment.ObjectMeta d)) (snd (Deployments_Update (KubeClient f) (Namespace (Deployment.ObjectMeta d)) (d\<lparr>Deployment.Spec := (Deployment.Spec d)\<lparr>DeploymentSpec.Replicas := Some 0\<rparr>\<rparr>) v))))))"
  using ScaleSatefulSetDownToZero_absent[of f s w] ScaleDeploymentDownToZero_absent[of f d v]
  by blast

theorem ScaleDownToZero_absent_witness:
  "(\<forall>w. \<exists>e. snd (fst (StatefulSets_Update (KubeClient only_db_absent_client)
                             (Namespace (StatefulSet.ObjectMeta (a_StatefulSet (Some 3) 2))) ((a_StatefulSet (Some 3) 2)\<lparr>StatefulSet.Spec := (StatefulSet.Spec (a_StatefulSet (Some 3) 2))\<lparr>StatefulSetSpec.Replicas := Some 0\<rparr>\<rparr>) w)) = Some e
                 \<and> Contains e ''not found'')
   \<and> (\<forall>w. \<exists>e. snd (fst (StatefulSets_Get (KubeClient only_db_absent_client)
                             (Namespace (StatefulSet.ObjectMeta (a_StatefulSet (Some 3) 2)))
                             (Name (StatefulSet.ObjectMeta (a_StatefulSet (Some 3) 2))) w)) = Some e
                 \<and> Contains e ''not found'')
   \<and> (\<forall>v. \<exists>e. snd (fst (Deployments_Update (KubeClient only_db_absent_client)
                             (Namespace (Deployment.ObjectMeta (a_Deployment (Some 3) 2))) ((a_Deployment (Some 3) 2)\<lparr>Deployment.Spec := (Deployment.Spec (a_Deployment (Some 3) 2))\<lparr>DeploymentSpec.Replicas := Some 0\<rparr>\<rparr>) v)) = Some e
                 \<and> Contains e ''not found'')
   \<and> (\<forall>v. \<exists>e. snd (fst (Deployments_Get (KubeClient only_db_absent_client)
                             (Namespace (Deployment.ObjectMeta (a_Deployment (Some 3) 2)))
                             (Name (Deployment.ObjectMeta (a_Deployment (Some 3) 2))) v)) = Some e
                 \<and> Contains e ''not found'')
   \<and> snd (fst (StatefulSets_Get (KubeClient only_db_absent_client) ''default'' ''web'' [])) = None
   \<and> ScaleSatefulSetDownToZero only_db_absent_client (Some (a_StatefulSet (Some 3) 2)) []
       = Some (Inr Success, Some (a_StatefulSet (Some 0) 2),
               [''StatefulSets.Update'', ''StatefulSets.Get''])
   \<and> ScaleDeploymentDownToZero only_db_absent_client (Some (a_Deployment (Some 3) 2)) []
       = Some (Inr Success, Some (a_Deployment (Some 0) 2),
               [''Deployments.Update'', ''Deployments.Get''])"
proof -
  have h1: "\<forall>w. \<exists>e. snd (fst (StatefulSets_Update (KubeClient only_db_absent_client)
                             (Namespace (StatefulSet.ObjectMeta (a_StatefulSet (Some 3) 2))) ((a_StatefulSet (Some 3) 2)\<lparr>StatefulSet.Spec := (StatefulSet.Spec (a_StatefulSet (Some 3) 2))\<lparr>StatefulSetSpec.Replicas := Some 0\<rparr>\<rparr>) w)) = Some e
                 \<and> Contains e ''not found''"
    by (simp add: only_db_absent_client_def recording_def a_StatefulSet_def)
  have h2: "\<forall>w. \<exists>e. snd (fst (StatefulSets_Get (KubeClient only_db_absent_client)
                             (Namespace (StatefulSet.ObjectMeta (a_StatefulSet (Some 3) 2)))
                             (Name (StatefulSet.ObjectMeta (a_StatefulSet (Some 3) 2))) w)) = Some e
                 \<and> Contains e ''not found''"
    by (simp add: only_db_absent_client_def recording_def a_StatefulSet_def)
  have h3: "\<forall>v. \<exists>e. snd (fst (Deployments_Update (KubeClient only_db_absent_client)
                             (Namespace (Deployment.ObjectMeta (a_Deployment (Some 3) 2))) ((a_Deployment (Some 3) 2)\<lparr>Deployment.Spec := (Deployment.Spec (a_Deployment (Some 3) 2))\<lparr>DeploymentSpec.Replicas := Some 0\<rparr>\<rparr>) v)) = Some e
                 \<and> Contains e ''not found''"
    by (simp add: only_db_absent_client_def recording_def a_Deployment_def)
  have h4: "\<forall>v. \<exists>e. snd (fst (Deployments_Get (KubeClient only_db_absent_client)
                             (Namespace (Deployment.ObjectMeta (a_Deployment (Some 3) 2)))
                             (Name (Deployment.ObjectMeta (a_Deployment (Some 3) 2))) v)) = Some e
                 \<and> Contains e ''not found''"
    by (simp add: only_db_absent_client_def recording_def a_Deployment_def)
  have h5: "snd (fst (StatefulSets_Get (KubeClient only_db_absent_client) ''default'' ''web'' [])) = None"
    by (simp add: only_db_absent_client_def recording_def)
  have e1: "snd (StatefulSets_Update (KubeClient only_db_absent_client) ns obj w)
              = w @ [''StatefulSets.Update'']"
    "snd (StatefulSets_Get (KubeClient only_db_absent_client) ns name w)
              = w @ [''StatefulSets.Get'']"
    "snd (Deployments_Update (KubeClient only_db_absent_client) ns dobj w)
              = w @ [''Deployments.Update'']"
    "snd (Deployments_Get (KubeClient only_db_absent_client) ns name w)
              = w @ [''Deployments.Get'']"
    for ns name obj dobj w
    by (simp_all add: only_db_absent_client_def recording_def)
  have e2: "((a_StatefulSet (Some 3) 2)\<lparr>StatefulSet.Spec := (StatefulSet.Spec (a_StatefulSet (Some 3) 2))\<lparr>StatefulSetSpec.Replicas := Some 0\<rparr>\<rparr>) = a_StatefulSet (Some 0) 2"
    "((a_Deployment (Some 3) 2)\<lparr>Deployment.Spec := (Deployment.Spec (a_Deployment (Some 3) 2))\<lparr>DeploymentSpec.Replicas := Some 0\<rparr>\<rparr>) = a_Deployment (Some 0) 2"
    by (simp_all add: a_StatefulSet_def a_Deployment_def)
  from ScaleDownToZero_absent[of only_db_absent_client "a_StatefulSet (Some 3) 2" "[]"
      "a_Deployment (Some 3) 2" "[]"] h1 h2 h3 h4 h5
  show ?thesis unfolding e1 e2 by simp
qed

text \<open>
  C9, as stated, fails: after scaling a stateful set whose desired count was 3, the
  caller's object has a desired count of 0.
\<close>

theorem caller_object_changed_counterexample:
  "ScaleSatefulSetDownToZero accepting_client (Some (a_StatefulSet (Some 3) 2)) []
     = Some (Inr Success, Some (a_StatefulSet (Some 0) 2),
             [''StatefulSets.Update'', ''StatefulSets.Get''])
   \<and> a_StatefulSet (Some 0) 2 \<noteq> a_StatefulSet (Some 3) 2"
  by code_simp

text \<open>
  C9, amended. Scale-to-zero on a non-nil object returns, and whatever the result it
  leaves the caller's object equal to the object passed in except for
  \<open>Spec.Replicas\<close>, which points to zero. No other field of the object is changed.
\<close>

theorem ScaleDownToZero_caller_object:
  "(\<exists>r w'. ScaleSatefulSetDownToZero f (Some s) w = Some (Inr r, Some (s\<lparr>StatefulSet.Spec := (StatefulSet.Spec s)\<lparr>StatefulSetSpec.Replicas := Some 0\<rparr>\<rparr>), w'))
   \<and> (\<exists>r v'. ScaleDeploymentDownToZero f (Some d) v = Some (Inr r, Some (d\<lparr>Deployment.Spec := (Deployment.Spec d)\<lparr>DeploymentSpec.Replicas := Some 0\<rparr>\<rparr>), v'))"
proof -
  obtain n r w1 where p1: "Poll PollInterval PoolDeletionTimeout (ScaleSatefulSetDownToZero_update f (s\<lparr>StatefulSet.Spec := (StatefulSet.Spec s)\<lparr>StatefulSetSpec.Replicas := Some 0\<rparr>\<rparr>)) w
      = Some (r, map (\<lambda>k. int k * PollInterval) [0..<Suc n], w1)"
    using Poll_framework_run[where condition="ScaleSatefulSetDownToZero_update f (s\<lparr>StatefulSet.Spec := (StatefulSet.Spec s)\<lparr>StatefulSetSpec.Replicas := Some 0\<rparr>\<rparr>)" and w=w,
        OF ScaleSatefulSetDownToZero_update_no_error] by blast
  obtain n2 r2 w2 where p2: "Poll PollInterval PoolDeletionTimeout (ScaleSatefulSetDownToZero_get f (s\<lparr>StatefulSet.Spec := (StatefulSet.Spec s)\<lparr>StatefulSetSpec.Replicas := Some 0\<rparr>\<rparr>)) w1
      = Some (r2, map (\<lambda>k. int k * PollInterval) [0..<Suc n2], w2)"
    using Poll_framework_run[where condition="ScaleSatefulSetDownToZero_get f (s\<lparr>StatefulSet.Spec := (StatefulSet.Spec s)\<lparr>StatefulSetSpec.Replicas := Some 0\<rparr>\<rparr>)" and w=w1,
        OF ScaleSatefulSetDownToZero_get_no_error] by blast
  have a: "\<exists>r w'. ScaleSatefulSetDownToZero f (Some s) w = Some (Inr r, Some (s\<lparr>StatefulSet.Spec := (StatefulSet.Spec s)\<lparr>StatefulSetSpec.Replicas := Some 0\<rparr>\<rparr>), w')"
    unfolding ScaleSatefulSetDownToZero_def by (simp add: Let_def p1 p2 del: upt_Suc)
  obtain m q v1 where q1: "Poll PollInterval PoolDeletionTimeout (ScaleDeploymentDownToZero_update f (d\<lparr>Deployment.Spec := (Deployment.Spec d)\<lparr>DeploymentSpec.Replicas := Some 0\<rparr>\<rparr>)) v
      = Some (q, map (\<lambda>k. int k * PollInterval) [0..<Suc m], v1)"
    using Poll_framework_run[where condition="ScaleDeploymentDownToZero_update f (d\<lparr>Deployment.Spec := (Deployment.Spec d)\<lparr>DeploymentSpec.Replicas := Some 0\<rparr>\<rparr>)" and w=v,
        OF ScaleDeploymentDownToZero_update_no_error] by blast
  obtain m2 q2 v2 where q2: "Poll PollInterval PoolDeletionTimeout (ScaleDeploymentDownToZero_get f (d\<lparr>Deployment.Spec := (Deployment.Spec d)\<lparr>DeploymentSpec.Replicas := Some 0\<rparr>\<rparr>)) v1
      = Some (q2, map (\<lambda>k. int k * PollInterval) [0..<Suc m2], v2)"
    using Poll_framework_run[where condition="ScaleDeploymentDownToZero_get f (d\<lparr>Deployment.Spec := (Deployment.Spec d)\<lparr>DeploymentSpec.Replicas := Some 0\<rparr>\<rparr>)" and w=v1,
        OF ScaleDeploymentDownToZero_get_no_error] by blast
  have b: "\<exists>r v'. ScaleDeploymentDownToZero f (Some d) v = Some (Inr r, Some (d\<lparr>Deployment.Spec := (Deployment.Spec d)\<lparr>DeploymentSpec.Replicas := Some 0\<rparr>\<rparr>), v')"
    unfolding ScaleDeploymentDownToZero_def by (simp add: Let_def q1 q2 del: upt_Suc)
  from a b show ?thesis by blast
qed

text \<open>
  C10. A delete error whose message contains both "object is being deleted" and
  "not found" makes the tick \<open>Pending\<close>: the first check wins.
\<close>

theorem being_deleted_precedes_not_found:
  assumes "delFnc w = (Some e, w')"
    and "Contains e ''object is being deleted''" and "Contains e ''not found''"
  shows "WaitUntilDeleted_condition delFnc getFnc w = ((False, None), w')
       \<and> outcome (fst (WaitUntilDeleted_condition delFnc getFnc w)) = Pending"
  using assms by (simp add: WaitUntilDeleted_condition_def)

theorem being_deleted_precedes_not_found_witness:
  "recording ''delete'' (Some ''object is being deleted: machine not found'') []
     = (Some ''object is being deleted: machine not found'', [''delete''])
   \<and> Contains ''object is being deleted: machine not found'' ''object is being deleted''
   \<and> Contains ''object is being deleted: machine not found'' ''not found''
   \<and> WaitUntilDeleted_condition
         (recording ''delete'' (Some ''object is being deleted: machine not found''))
         (recording ''get'' None) [] = ((False, None), [''delete''])
   \<and> outcome (fst (WaitUntilDeleted_condition
         (recording ''delete'' (Some ''object is being deleted: machine not found''))
         (recording ''get'' None) [])) = Pending"
  using being_deleted_precedes_not_found[
      where delFnc="recording ''delete'' (Some ''object is being deleted: machine not found'')"
      and getFnc="recording ''get'' None" and w="[]"
      and e="''object is being deleted: machine not found''" and w'="[''delete'']"]
  by (simp add: recording_def)

end
